theory Spec2Isabelle
  imports Complex_Main
begin

section \<open>JavaScript numbers\<close>

text \<open>
  A JavaScript \<open>number\<close> is modelled as a finite real or one of the three special values.
  Finite arithmetic is exact (rounding and overflow of doubles are not modelled), and there
  is a single zero, which divides like \<open>+0\<close>.
\<close>

datatype jsnum = Fin real | PInf | NInf | NaN

fun isFinite :: "jsnum \<Rightarrow> bool" where
  "isFinite (Fin _) = True"
| "isFinite _ = False"

fun js_neg :: "jsnum \<Rightarrow> jsnum" where
  "js_neg (Fin a) = Fin (- a)"
| "js_neg PInf = NInf"
| "js_neg NInf = PInf"
| "js_neg NaN = NaN"

fun js_add :: "jsnum \<Rightarrow> jsnum \<Rightarrow> jsnum" where
  "js_add (Fin a) (Fin b) = Fin (a + b)"
| "js_add NaN _ = NaN"
| "js_add _ NaN = NaN"
| "js_add PInf NInf = NaN"
| "js_add NInf PInf = NaN"
| "js_add PInf _ = PInf"
| "js_add _ PInf = PInf"
| "js_add NInf _ = NInf"
| "js_add _ NInf = NInf"

definition js_sub :: "jsnum \<Rightarrow> jsnum \<Rightarrow> jsnum" where
  "js_sub a b = js_add a (js_neg b)"

text \<open>The sign of a non-zero product or quotient with an infinite operand.\<close>

definition signed_inf :: "bool \<Rightarrow> jsnum" where
  "signed_inf positive = (if positive then PInf else NInf)"

fun js_mul :: "jsnum \<Rightarrow> jsnum \<Rightarrow> jsnum" where
  "js_mul (Fin a) (Fin b) = Fin (a * b)"
| "js_mul NaN _ = NaN"
| "js_mul _ NaN = NaN"
| "js_mul (Fin a) PInf = (if a = 0 then NaN else signed_inf (0 < a))"
| "js_mul (Fin a) NInf = (if a = 0 then NaN else signed_inf (a < 0))"
| "js_mul PInf (Fin b) = (if b = 0 then NaN else signed_inf (0 < b))"
| "js_mul NInf (Fin b) = (if b = 0 then NaN else signed_inf (b < 0))"
| "js_mul PInf PInf = PInf"
| "js_mul NInf NInf = PInf"
| "js_mul PInf NInf = NInf"
| "js_mul NInf PInf = NInf"

fun js_div :: "jsnum \<Rightarrow> jsnum \<Rightarrow> jsnum" where
  "js_div (Fin a) (Fin b) =
     (if b = 0 then (if a = 0 then NaN else signed_inf (0 < a)) else Fin (a / b))"
| "js_div NaN _ = NaN"
| "js_div _ NaN = NaN"
| "js_div (Fin a) PInf = Fin 0"
| "js_div (Fin a) NInf = Fin 0"
| "js_div PInf (Fin b) = signed_inf (0 \<le> b)"
| "js_div NInf (Fin b) = signed_inf (b < 0)"
| "js_div PInf PInf = NaN"
| "js_div NInf NInf = NaN"
| "js_div PInf NInf = NaN"
| "js_div NInf PInf = NaN"

fun js_abs :: "jsnum \<Rightarrow> jsnum" where
  "js_abs (Fin a) = Fin \<bar>a\<bar>"
| "js_abs PInf = PInf"
| "js_abs NInf = PInf"
| "js_abs NaN = NaN"

text \<open>The comparison \<open>a < b\<close>: false as soon as an operand is \<open>NaN\<close>.\<close>

fun js_lt :: "jsnum \<Rightarrow> jsnum \<Rightarrow> bool" where
  "js_lt (Fin a) (Fin b) = (a < b)"
| "js_lt NaN _ = False"
| "js_lt _ NaN = False"
| "js_lt PInf _ = False"
| "js_lt _ PInf = True"
| "js_lt _ NInf = False"
| "js_lt NInf _ = True"

text \<open>
  \<open>Math.log10\<close>: \<open>NaN\<close> below zero, \<open>-Infinity\<close> at zero.
\<close>

fun js_log10 :: "jsnum \<Rightarrow> jsnum" where
  "js_log10 (Fin a) = (if a < 0 then NaN else if a = 0 then NInf else Fin (log 10 a))"
| "js_log10 PInf = PInf"
| "js_log10 NInf = NaN"
| "js_log10 NaN = NaN"

text \<open>
  \<open>Math.pow(base, exponent)\<close>, by the cases of the language standard: a \<open>NaN\<close> exponent
  gives \<open>NaN\<close>, a zero exponent gives 1 for every base, a negative base with a fractional
  exponent gives \<open>NaN\<close>.
\<close>

definition odd_integer :: "real \<Rightarrow> bool" where
  "odd_integer e = (e = of_int \<lfloor>e\<rfloor> \<and> odd \<lfloor>e\<rfloor>)"

fun js_pow :: "jsnum \<Rightarrow> jsnum \<Rightarrow> jsnum" where
  "js_pow b NaN = NaN"
| "js_pow b (Fin e) =
     (if e = 0 then Fin 1
      else case b of
        NaN \<Rightarrow> NaN
      | PInf \<Rightarrow> (if 0 < e then PInf else Fin 0)
      | NInf \<Rightarrow> (if 0 < e then (if odd_integer e then NInf else PInf) else Fin 0)
      | Fin r \<Rightarrow>
          (if r = 0 then (if 0 < e then Fin 0 else PInf)
           else if 0 < r then Fin (r powr e)
           else if e = of_int \<lfloor>e\<rfloor> then Fin (r powi \<lfloor>e\<rfloor>)
           else NaN))"
| "js_pow b PInf =
     (case b of
        NaN \<Rightarrow> NaN
      | Fin r \<Rightarrow> (if 1 < \<bar>r\<bar> then PInf else if \<bar>r\<bar> = 1 then NaN else Fin 0)
      | _ \<Rightarrow> PInf)"
| "js_pow b NInf =
     (case b of
        NaN \<Rightarrow> NaN
      | Fin r \<Rightarrow> (if 1 < \<bar>r\<bar> then Fin 0 else if \<bar>r\<bar> = 1 then NaN else PInf)
      | _ \<Rightarrow> Fin 0)"

text \<open>Truthiness of a number: \<open>0\<close> and \<open>NaN\<close> are falsy.\<close>

fun truthy :: "jsnum \<Rightarrow> bool" where
  "truthy (Fin a) = (a \<noteq> 0)"
| "truthy NaN = False"
| "truthy _ = True"

section \<open>Curve fitting (curve_fitting.js)\<close>

text \<open>A data point \<open>{x, y}\<close>: \<open>px\<close> is its field \<open>x\<close>, \<open>py\<close> its field \<open>y\<close>.\<close>

record point =
  px :: jsnum
  py :: jsnum

text \<open>The fitted coefficients \<open>{A, B}\<close> that both fits return.\<close>

record fit_result =
  coefA :: jsnum
  coefB :: jsnum

text \<open>
  The errors the modelled functions throw, one constructor for each message:
  \<^item> \<open>InsufficientData\<close>: "At least 3 data points required for curve fitting";
  \<^item> \<open>SingularSystem\<close>: "Singular matrix - cannot solve for coefficients";
  \<^item> \<open>EmptyUnit\<close>: "Unit must be a non-empty string";
  \<^item> \<open>UnsupportedTemperatureUnit\<close>: "Unsupported temperature unit: ...";
  \<^item> \<open>UnknownUnit\<close>: "Unknown unit: ..." (thrown by \<open>linearConversion\<close>);
  \<^item> \<open>UnsupportedConversion\<close>: "Unsupported conversion from ... to ...".
\<close>

datatype js_error =
    InsufficientData
  | SingularSystem
  | EmptyUnit
  | UnsupportedTemperatureUnit string
  | UnknownUnit string
  | UnsupportedConversion string string

text \<open>
  \<open>leastSquaresFit\<close>, first with exact arithmetic on the finite numbers. The seven
  accumulators of its \<open>forEach\<close> loop:
\<close>

record accum =
  sumX :: jsnum
  sumX2 :: jsnum
  sumX3 :: jsnum
  sumX4 :: jsnum
  sumY :: jsnum
  sumXY :: jsnum
  sumX2Y :: jsnum

definition sums0 :: accum where
  "sums0 = \<lparr>sumX = Fin 0, sumX2 = Fin 0, sumX3 = Fin 0, sumX4 = Fin 0,
            sumY = Fin 0, sumXY = Fin 0, sumX2Y = Fin 0\<rparr>"

definition accumulate :: "accum \<Rightarrow> point \<Rightarrow> accum" where
  "accumulate s p =
     (let x = px p; y = py p in
      \<lparr>sumX = js_add (sumX s) x,
       sumX2 = js_add (sumX2 s) (js_mul x x),
       sumX3 = js_add (sumX3 s) (js_mul (js_mul x x) x),
       sumX4 = js_add (sumX4 s) (js_mul (js_mul (js_mul x x) x) x),
       sumY = js_add (sumY s) y,
       sumXY = js_add (sumXY s) (js_mul x y),
       sumX2Y = js_add (sumX2Y s) (js_mul (js_mul x x) y)\<rparr>)"

definition leastSquaresFit :: "point list \<Rightarrow> js_error + fit_result" where
  "leastSquaresFit dataPoints =
     (if length dataPoints < 3 then Inl InsufficientData
      else
        let n = Fin (real (length dataPoints));
            s = foldl accumulate sums0 dataPoints;
            denom = js_sub (js_mul n (sumX4 s)) (js_mul (sumX2 s) (sumX2 s))
        in if js_lt (js_abs denom) (Fin (1 / 10 ^ 10)) then Inl SingularSystem
           else Inr \<lparr>coefA = js_div (js_sub (js_mul (sumY s) (sumX4 s))
                                              (js_mul (sumX2Y s) (sumX2 s))) denom,
                     coefB = js_div (js_sub (js_mul n (sumX2Y s))
                                              (js_mul (sumY s) (sumX2 s))) denom\<rparr>)"

text \<open>A sample with finite coordinates, and a list of them.\<close>

definition sample :: "real \<times> real \<Rightarrow> point" where
  "sample uv = \<lparr>px = Fin (fst uv), py = Fin (snd uv)\<rparr>"

definition samples :: "(real \<times> real) list \<Rightarrow> point list" where
  "samples xys = map sample xys"

text \<open>The two arrays that \<open>fitCurve\<close> reads, as columns of a list of finite pairs.\<close>

definition column :: "(real \<times> real \<Rightarrow> real) \<Rightarrow> (real \<times> real) list \<Rightarrow> jsnum list" where
  "column f xys = map (\<lambda>p. Fin (f p)) xys"

text \<open>
  \<open>calculateR2\<close>: the three \<open>reduce\<close> calls are left folds from 0; the mean of an empty
  list is \<open>0 / 0\<close>.
\<close>

definition calculateR2 :: "point list \<Rightarrow> jsnum \<Rightarrow> jsnum \<Rightarrow> jsnum" where
  "calculateR2 dataPoints A B =
     (let yMean = js_div (foldl (\<lambda>sum p. js_add sum (py p)) (Fin 0) dataPoints)
                         (Fin (real (length dataPoints)));
          ssTot = foldl (\<lambda>sum p. js_add sum (js_pow (js_sub (py p) yMean) (Fin 2)))
                    (Fin 0) dataPoints;
          ssRes = foldl (\<lambda>sum p.
                     let yPred = js_add (js_mul A (px p)) (js_mul (js_mul B (px p)) (px p))
                     in js_add sum (js_pow (js_sub (py p) yPred) (Fin 2)))
                    (Fin 0) dataPoints
      in js_sub (Fin 1) (js_div ssRes ssTot))"

text \<open>
  \<open>calcDarcyForchheimer\<close> (the calculator page script): two plain divisions, no check of
  the divisors.
\<close>

record porous =
  darcy :: jsnum
  forchheimer :: jsnum

definition calcDarcyForchheimer ::
  "jsnum \<Rightarrow> jsnum \<Rightarrow> jsnum \<Rightarrow> jsnum \<Rightarrow> jsnum \<Rightarrow> porous" where
  "calcDarcyForchheimer A B mu rho L =
     \<lparr>darcy = js_div A (js_mul mu L),
      forchheimer = js_div (js_mul (Fin 2) B) (js_mul rho L)\<rparr>"

text \<open>
  \<open>performCurveFitting\<close>: the value it returns, \<open>None\<close> for \<open>null\<close>. Plotting and writing
  the results element are effects outside the model; they are taken to complete.
\<close>

record analysis =
  resA :: jsnum
  resB :: jsnum
  res_d :: jsnum
  res_f :: jsnum
  resR2 :: jsnum

definition performCurveFitting ::
  "point list \<Rightarrow> jsnum \<Rightarrow> jsnum \<Rightarrow> jsnum \<Rightarrow> analysis option" where
  "performCurveFitting dataPoints L density viscosity =
     (if length dataPoints < 3 then None
      else case leastSquaresFit dataPoints of
        Inl e \<Rightarrow> None
      | Inr fit \<Rightarrow>
          let A = coefA fit; B = coefB fit;
              R2 = calculateR2 dataPoints A B;
              d = js_div A (js_mul viscosity L);
              f = js_div (js_mul (Fin 2) B) (js_mul density L)
          in Some \<lparr>resA = A, resB = B, res_d = d, res_f = f, resR2 = R2\<rparr>)"

text \<open>
  \<open>fitCurve\<close> (the calculator page script): the second fit, over two arrays. It has no
  length check and no check of the denominator. Reading \<open>y[i]\<close> past the end of \<open>y\<close>
  gives \<open>undefined\<close>, which turns every sum it enters into \<open>NaN\<close>.
\<close>

record accum2 =
  sX2 :: jsnum
  sX3 :: jsnum
  sX4 :: jsnum
  sXY :: jsnum
  sX2Y :: jsnum

definition fitStep :: "jsnum list \<Rightarrow> jsnum list \<Rightarrow> accum2 \<Rightarrow> nat \<Rightarrow> accum2" where
  "fitStep xs ys s i =
     (let xi = xs ! i;
          yi = (if i < length ys then ys ! i else NaN);
          xi2 = js_mul xi xi;
          xi3 = js_mul xi2 xi;
          xi4 = js_mul xi3 xi
      in \<lparr>sX2 = js_add (sX2 s) xi2,
          sX3 = js_add (sX3 s) xi3,
          sX4 = js_add (sX4 s) xi4,
          sXY = js_add (sXY s) (js_mul xi yi),
          sX2Y = js_add (sX2Y s) (js_mul xi2 yi)\<rparr>)"

definition fitCurve :: "jsnum list \<Rightarrow> jsnum list \<Rightarrow> fit_result" where
  "fitCurve xs ys =
     (let s = foldl (fitStep xs ys)
                \<lparr>sX2 = Fin 0, sX3 = Fin 0, sX4 = Fin 0, sXY = Fin 0, sX2Y = Fin 0\<rparr>
                [0 ..< length xs];
          denom = js_sub (js_mul (sX2 s) (sX4 s)) (js_mul (sX3 s) (sX3 s))
      in \<lparr>coefA = js_div (js_sub (js_mul (sX4 s) (sXY s)) (js_mul (sX3 s) (sX2Y s))) denom,
          coefB = js_div (js_sub (js_mul (sX2 s) (sX2Y s)) (js_mul (sX3 s) (sXY s))) denom\<rparr>)"

section \<open>The fit in double precision\<close>

text \<open>
  The numbers of the program are binary64 values, and every operation returns the value
  nearest to the exact result, ties to the even significand. \<open>round64\<close> is that rounding:
  53 significant bits from the exponent -1022 upwards (below it the spacing is that of
  the exponent -1022), and an infinity once the rounded magnitude reaches \<open>2^1024\<close>.
\<close>

definition roundNearestEven :: "real \<Rightarrow> int" where
  "roundNearestEven x =
     (let n = \<lfloor>x\<rfloor>; r = x - of_int n
      in if r < 1 / 2 then n else if 1 / 2 < r then n + 1 else if even n then n else n + 1)"

definition round64 :: "real \<Rightarrow> jsnum" where
  "round64 x =
     (if x = 0 then Fin 0
      else
        let e = max \<lfloor>log 2 \<bar>x\<bar>\<rfloor> (- 1022);
            ulp = 2 powi (e - 52);
            r = of_int (roundNearestEven (x / ulp)) * ulp
        in if 2 ^ 1024 \<le> \<bar>r\<bar> then signed_inf (0 < x) else Fin r)"

fun lift64 :: "jsnum \<Rightarrow> jsnum" where
  "lift64 (Fin x) = round64 x"
| "lift64 v = v"

definition add64 :: "jsnum \<Rightarrow> jsnum \<Rightarrow> jsnum" where
  "add64 a b = lift64 (js_add a b)"

definition sub64 :: "jsnum \<Rightarrow> jsnum \<Rightarrow> jsnum" where
  "sub64 a b = lift64 (js_sub a b)"

definition mul64 :: "jsnum \<Rightarrow> jsnum \<Rightarrow> jsnum" where
  "mul64 a b = lift64 (js_mul a b)"

definition div64 :: "jsnum \<Rightarrow> jsnum \<Rightarrow> jsnum" where
  "div64 a b = lift64 (js_div a b)"

text \<open>
  \<open>leastSquaresFit\<close> with the operations of the program: the same loop and the same
  expressions, each operation rounded. The literal \<open>1e-10\<close> is the double nearest to it;
  the length of the list is an integer and exact.
\<close>

definition epsilon64 :: jsnum where
  "epsilon64 = round64 (1 / 10 ^ 10)"

definition accumulate64 :: "accum \<Rightarrow> point \<Rightarrow> accum" where
  "accumulate64 s p =
     (let x = px p; y = py p in
      \<lparr>sumX = add64 (sumX s) x,
       sumX2 = add64 (sumX2 s) (mul64 x x),
       sumX3 = add64 (sumX3 s) (mul64 (mul64 x x) x),
       sumX4 = add64 (sumX4 s) (mul64 (mul64 (mul64 x x) x) x),
       sumY = add64 (sumY s) y,
       sumXY = add64 (sumXY s) (mul64 x y),
       sumX2Y = add64 (sumX2Y s) (mul64 (mul64 x x) y)\<rparr>)"

definition leastSquaresFit64 :: "point list \<Rightarrow> js_error + fit_result" where
  "leastSquaresFit64 dataPoints =
     (if length dataPoints < 3 then Inl InsufficientData
      else
        let n = Fin (real (length dataPoints));
            s = foldl accumulate64 sums0 dataPoints;
            denom = sub64 (mul64 n (sumX4 s)) (mul64 (sumX2 s) (sumX2 s))
        in if js_lt (js_abs denom) epsilon64 then Inl SingularSystem
           else Inr \<lparr>coefA = div64 (sub64 (mul64 (sumY s) (sumX4 s))
                                              (mul64 (sumX2Y s) (sumX2 s))) denom,
                     coefB = div64 (sub64 (mul64 n (sumX2Y s))
                                              (mul64 (sumY s) (sumX2 s))) denom\<rparr>)"

section \<open>Fluid properties (getOilProperties.js)\<close>

text \<open>
  The loaded table \<open>fluidData\<close> is a parameter of every function that reads it. A field
  that an entry may lack is an option. A name that \<open>fluidData\<close> only inherits from
  \<open>Object.prototype\<close> reads an object with neither of the two fields, for which the three
  functions return the \<open>NaN\<close> of a name that is not in the table.
\<close>

record visc_point =
  temperature :: jsnum
  kinematicViscosity :: jsnum

record fluid =
  DensityAt15C :: "jsnum option"
  KinematicViscosityLimits :: "visc_point list option"

type_synonym fluid_table = "string \<rightharpoonup> fluid"

definition DENSITY_COEFFICIENT :: jsnum where
  "DENSITY_COEFFICIENT = Fin 0.00065"

definition REFERENCE_TEMP_K :: jsnum where
  "REFERENCE_TEMP_K = Fin 288.15"

definition WALTHER_CONSTANT :: jsnum where
  "WALTHER_CONSTANT = Fin 0.8"

definition getDensityAtTemp :: "fluid_table \<Rightarrow> string \<Rightarrow> jsnum \<Rightarrow> jsnum" where
  "getDensityAtTemp fluidData name tK =
     (if \<not> isFinite tK then NaN
      else case fluidData name of
        None \<Rightarrow> NaN
      | Some fl \<Rightarrow>
          (case DensityAt15C fl of
             None \<Rightarrow> NaN
           | Some rho15 \<Rightarrow>
               if \<not> truthy rho15 then NaN
               else js_mul rho15
                      (js_sub (Fin 1)
                         (js_mul DENSITY_COEFFICIENT (js_sub tK REFERENCE_TEMP_K)))))"

definition calculateWaltherTransform :: "jsnum \<Rightarrow> jsnum" where
  "calculateWaltherTransform viscosity = js_log10 (js_log10 (js_add viscosity WALTHER_CONSTANT))"

definition inverseWaltherTransform :: "jsnum \<Rightarrow> jsnum" where
  "inverseWaltherTransform h = js_sub (js_pow (Fin 10) (js_pow (Fin 10) h)) WALTHER_CONSTANT"

text \<open>
  \<open>getKinViscAtTemp\<close>. The call of \<open>validateWaltherTransform\<close> only writes to the console
  and is left out.
\<close>

definition getKinViscAtTemp :: "fluid_table \<Rightarrow> string \<Rightarrow> jsnum \<Rightarrow> jsnum" where
  "getKinViscAtTemp fluidData name tK =
     (if \<not> isFinite tK then NaN
      else case (case fluidData name of None \<Rightarrow> None | Some fl \<Rightarrow> KinematicViscosityLimits fl) of
        None \<Rightarrow> NaN
      | Some kv \<Rightarrow>
          if length kv < 2 then NaN
          else
            let T1 = temperature (kv ! 0);
                V1 = kinematicViscosity (kv ! 0);
                T2 = temperature (kv ! 1);
                V2 = kinematicViscosity (kv ! 1)
            in if \<not> isFinite T1 \<or> \<not> isFinite V1 \<or> \<not> isFinite T2 \<or> \<not> isFinite V2 then NaN
               else
                 let W1 = calculateWaltherTransform V1;
                     W2 = calculateWaltherTransform V2;
                     m = js_div (js_sub W2 W1) (js_sub (js_log10 T2) (js_log10 T1));
                     n = js_sub W1 (js_mul m (js_log10 T1));
                     h = js_add (js_mul m (js_log10 tK)) n
                 in inverseWaltherTransform h)"

definition getDynViscAtTemp :: "fluid_table \<Rightarrow> string \<Rightarrow> jsnum \<Rightarrow> jsnum" where
  "getDynViscAtTemp fluidData name tK =
     (let kinVisc = getKinViscAtTemp fluidData name tK;
          density = getDensityAtTemp fluidData name tK
      in if \<not> isFinite kinVisc \<or> \<not> isFinite density then NaN
         else js_mul (js_mul kinVisc (Fin (1 / 10 ^ 6))) density)"

section \<open>Unit conversion (unit converter script)\<close>

text \<open>
  A factor table is the list of its own keys with their factors, in the order of the
  object literal.
\<close>

type_synonym factor_table = "(string \<times> jsnum) list"

text \<open>
  The tables are plain objects, so they inherit the properties of \<open>Object.prototype\<close>:
  the names of the language standard, with those of its annex for browsers.
\<close>

definition objectPrototypeKeys :: "string list" where
  "objectPrototypeKeys =
     [''constructor'', ''hasOwnProperty'', ''isPrototypeOf'', ''propertyIsEnumerable'',
      ''toLocaleString'', ''toString'', ''valueOf'', ''__proto__'', ''__defineGetter__'',
      ''__defineSetter__'', ''__lookupGetter__'', ''__lookupSetter__'']"

text \<open>
  \<open>u in factorTable\<close>: true of an own key and of an inherited name.
\<close>

definition hasKey :: "factor_table \<Rightarrow> string \<Rightarrow> bool" where
  "hasKey factorTable u = (u \<in> set (map fst factorTable) \<or> u \<in> set objectPrototypeKeys)"

text \<open>
  \<open>factorTable[u]\<close> as an operand of arithmetic: the factor of an own key, and \<open>NaN\<close> for
  every other name, since an inherited property is a function or an object and a missing
  one is \<open>undefined\<close>, all of which convert to \<open>NaN\<close>.
\<close>

definition factorOf :: "factor_table \<Rightarrow> string \<Rightarrow> jsnum" where
  "factorOf factorTable u = (case map_of factorTable u of Some factor \<Rightarrow> factor | None \<Rightarrow> NaN)"

definition lengthFactors :: factor_table where
  "lengthFactors =
     [(''m'', Fin 1), (''cm'', Fin 0.01), (''mm'', Fin 0.001), (''in'', Fin 0.0254),
      (''ft'', Fin 0.3048)]"

definition areaFactors :: factor_table where
  "areaFactors =
     [(''m^2'', Fin 1), (''cm^2'', Fin 0.0001), (''mm^2'', Fin (1 / 10 ^ 6)),
      (''in^2'', Fin 0.00064516), (''ft^2'', Fin 0.092903)]"

definition densityFactors :: factor_table where
  "densityFactors = [(''kg/m^3'', Fin 1), (''g/cm^3'', Fin 1000), (''lb/ft^3'', Fin 16.0185)]"

definition kinViscFactors :: factor_table where
  "kinViscFactors =
     [(''m^2/s'', Fin 1), (''mm^2/s'', Fin (1 / 10 ^ 6)), (''cSt'', Fin (1 / 10 ^ 6))]"

definition dynViscFactors :: factor_table where
  "dynViscFactors = [(''Pa*s'', Fin 1), (''mPa*s'', Fin 0.001), (''cP'', Fin 0.001)]"

definition volumeFactors :: factor_table where
  "volumeFactors =
     [(''m^3'', Fin 1), (''L'', Fin 0.001), (''mL'', Fin (1 / 10 ^ 6)),
      (''in^3'', Fin (1.6387 / 10 ^ 5)), (''ft^3'', Fin 0.0283168),
      (''gal(US)'', Fin 0.00378541), (''gal(UK)'', Fin 0.00454609)]"

definition flowFactors :: factor_table where
  "flowFactors =
     [(''m^3/s'', Fin 1), (''L/s'', Fin 0.001), (''L/min'', Fin (0.001 / 60)),
      (''gpm'', Fin (0.00378541 / 60)), (''gal/h'', Fin (0.00378541 / 3600)),
      (''ft^3/s'', Fin 0.0283168), (''kg/s'', Fin 1), (''lb/s'', Fin 0.453592)]"

definition pressureFactors :: factor_table where
  "pressureFactors =
     [(''Pa'', Fin 1), (''kPa'', Fin 1000), (''MPa'', Fin (10 ^ 6)), (''GPa'', Fin (10 ^ 9)),
      (''bar'', Fin 100000), (''psi'', Fin 6894.76), (''atm'', Fin 101325)]"

definition forceFactors :: factor_table where
  "forceFactors = [(''N'', Fin 1), (''kN'', Fin 1000), (''lbf'', Fin 4.44822), (''kgf'', Fin 9.80665)]"

definition temperatureUnits :: "string list" where
  "temperatureUnits = [''C'', ''F'', ''K'']"

definition unitTypeRegistry :: "(string \<times> factor_table) list" where
  "unitTypeRegistry =
     [(''length'', lengthFactors), (''area'', areaFactors), (''density'', densityFactors),
      (''kinematicViscosity'', kinViscFactors), (''dynamicViscosity'', dynViscFactors),
      (''volume'', volumeFactors), (''flow'', flowFactors), (''pressure'', pressureFactors),
      (''force'', forceFactors)]"

text \<open>\<open>toUpperCase\<close> on the letters a to z; every other character is kept.\<close>

definition upperChar :: "char \<Rightarrow> char" where
  "upperChar c =
     (case map_of (zip ''abcdefghijklmnopqrstuvwxyz'' ''ABCDEFGHIJKLMNOPQRSTUVWXYZ'') c of
        Some u \<Rightarrow> u
      | None \<Rightarrow> c)"

definition toUpperCase :: "string \<Rightarrow> string" where
  "toUpperCase s = map upperChar s"

definition normalizeUnit :: "string \<Rightarrow> js_error + string" where
  "normalizeUnit unit =
     (if unit = [] then Inl EmptyUnit
      else
        let upperUnit = toUpperCase unit
        in if upperUnit \<in> set [''C'', ''F'', ''K''] then Inr upperUnit else Inr unit)"

definition temperatureToKelvin :: "string \<Rightarrow> jsnum \<Rightarrow> js_error + jsnum" where
  "temperatureToKelvin unit v =
     (if unit = ''K'' then Inr v
      else if unit = ''C'' then Inr (js_add v (Fin 273.15))
      else if unit = ''F'' then
        Inr (js_add (js_div (js_mul (js_sub v (Fin 32)) (Fin 5)) (Fin 9)) (Fin 273.15))
      else Inl (UnsupportedTemperatureUnit unit))"

definition temperatureFromKelvin :: "string \<Rightarrow> jsnum \<Rightarrow> js_error + jsnum" where
  "temperatureFromKelvin unit valueK =
     (if unit = ''K'' then Inr valueK
      else if unit = ''C'' then Inr (js_sub valueK (Fin 273.15))
      else if unit = ''F'' then
        Inr (js_add (js_div (js_mul (js_sub valueK (Fin 273.15)) (Fin 9)) (Fin 5)) (Fin 32))
      else Inl (UnsupportedTemperatureUnit unit))"

definition linearConversion ::
  "factor_table \<Rightarrow> string \<Rightarrow> string \<Rightarrow> jsnum \<Rightarrow> js_error + jsnum" where
  "linearConversion factorTable fromUnit toUnit v =
     (if \<not> hasKey factorTable fromUnit then Inl (UnknownUnit fromUnit)
      else if \<not> hasKey factorTable toUnit then Inl (UnknownUnit toUnit)
      else Inr (js_mul v (js_div (factorOf factorTable fromUnit) (factorOf factorTable toUnit))))"

text \<open>
  The loop over the registry entries of \<open>convertUnit\<close>: the first table that holds both
  units converts; when none does, the function throws.
\<close>

fun tryTables ::
  "(string \<times> factor_table) list \<Rightarrow> string \<Rightarrow> string \<Rightarrow> string \<Rightarrow> string \<Rightarrow> jsnum
     \<Rightarrow> js_error + jsnum" where
  "tryTables [] originalUnit newUnit fromUnit toUnit v =
     Inl (UnsupportedConversion originalUnit newUnit)"
| "tryTables ((typeName, factorTable) # registry) originalUnit newUnit fromUnit toUnit v =
     (if hasKey factorTable fromUnit \<and> hasKey factorTable toUnit
      then linearConversion factorTable fromUnit toUnit v
      else tryTables registry originalUnit newUnit fromUnit toUnit v)"

definition convertUnit :: "string \<Rightarrow> string \<Rightarrow> jsnum \<Rightarrow> js_error + jsnum" where
  "convertUnit originalUnit newUnit v =
     (if \<not> isFinite v then Inr NaN
      else case normalizeUnit originalUnit of
        Inl e \<Rightarrow> Inl e
      | Inr fromUnit \<Rightarrow>
          (case normalizeUnit newUnit of
             Inl e \<Rightarrow> Inl e
           | Inr toUnit \<Rightarrow>
               if fromUnit = toUnit then Inr v
               else if fromUnit \<in> set [''C'', ''F'', ''K''] \<and> toUnit \<in> set [''C'', ''F'', ''K'']
               then (case temperatureToKelvin fromUnit v of
                       Inl e \<Rightarrow> Inl e
                     | Inr valueK \<Rightarrow> temperatureFromKelvin toUnit valueK)
               else tryTables unitTypeRegistry originalUnit newUnit fromUnit toUnit v))"

text \<open>
  The quantity types of a unit as the code sees them: the names of the registry tables
  that the unit is \<open>in\<close>, and \<open>temperature\<close> for the three temperature units. A name
  inherited from \<open>Object.prototype\<close> is \<open>in\<close> every table.
\<close>

definition unitTypes :: "string \<Rightarrow> string list" where
  "unitTypes u =
     map fst (filter (\<lambda>(typeName, factorTable). hasKey factorTable u) unitTypeRegistry)
     @ (if u \<in> set temperatureUnits then [''temperature''] else [])"

section \<open>Example fluid tables\<close>

text \<open>
  Four one-entry tables in the format of \<open>fluid_data.json\<close>: a hydraulic oil with two
  reference viscosities, an entry whose reference density is 0, an entry without a
  reference density, and a fluid whose reference viscosities are below 0.2 square
  millimetres per second.
\<close>

definition vg32Table :: fluid_table where
  "vg32Table =
     [''ISO VG 32'' \<mapsto>
        \<lparr>DensityAt15C = Some (Fin 870),
         KinematicViscosityLimits =
           Some [\<lparr>temperature = Fin 313.15, kinematicViscosity = Fin 32\<rparr>,
                 \<lparr>temperature = Fin 373.15, kinematicViscosity = Fin 5.4\<rparr>]\<rparr>]"

definition zeroDensityTable :: fluid_table where
  "zeroDensityTable =
     [''Test Oil'' \<mapsto>
        \<lparr>DensityAt15C = Some (Fin 0),
         KinematicViscosityLimits =
           Some [\<lparr>temperature = Fin 313.15, kinematicViscosity = Fin 32\<rparr>,
                 \<lparr>temperature = Fin 373.15, kinematicViscosity = Fin 5.4\<rparr>]\<rparr>]"

definition noDensityTable :: fluid_table where
  "noDensityTable =
     [''Test Oil'' \<mapsto>
        \<lparr>DensityAt15C = None,
         KinematicViscosityLimits =
           Some [\<lparr>temperature = Fin 313.15, kinematicViscosity = Fin 32\<rparr>,
                 \<lparr>temperature = Fin 373.15, kinematicViscosity = Fin 5.4\<rparr>]\<rparr>]"

definition thinFluidTable :: fluid_table where
  "thinFluidTable =
     [''Thin'' \<mapsto>
        \<lparr>DensityAt15C = Some (Fin 800),
         KinematicViscosityLimits =
           Some [\<lparr>temperature = Fin 300, kinematicViscosity = Fin 0.1\<rparr>,
                 \<lparr>temperature = Fin 400, kinematicViscosity = Fin 0.05\<rparr>]\<rparr>]"

section \<open>Arithmetic on finite numbers\<close>

lemma js_sub_Fin [simp]: "js_sub (Fin a) (Fin b) = Fin (a - b)"
  by (simp add: js_sub_def)

lemma js_pow_two [simp]: "js_pow (Fin r) (Fin 2) = Fin (r * r)"
proof -
  have "\<lfloor>2::real\<rfloor> = 2" by simp
  then show ?thesis by (simp add: power2_eq_square)
qed

lemma js_pow_ten [simp]: "js_pow (Fin 10) (Fin h) = Fin (10 powr h)"
  by simp

declare js_pow.simps [simp del]

lemma length_samples: "length (samples xys) = length xys"
  by (simp add: samples_def)

text \<open>A left fold that adds a finite term for every sample is the sum of the terms.\<close>

lemma foldl_js_add_samples:
  "(\<And>p. p \<in> set xys \<Longrightarrow> g (sample p) = Fin (f p)) \<Longrightarrow>
   foldl (\<lambda>sum q. js_add sum (g q)) (Fin a) (samples xys) = Fin (a + sum_list (map f xys))"
  by (induction xys arbitrary: a) (simp_all add: samples_def add.assoc)

lemma sum_list_const:
  "(\<And>p. p \<in> set ps \<Longrightarrow> f p = (k::real)) \<Longrightarrow> sum_list (map f ps) = real (length ps) * k"
  by (induction ps) (simp_all add: algebra_simps)

lemma sum_list_squares_pos:
  assumes "p \<in> set xys" and "f p \<noteq> (0::real)"
  shows "0 < (\<Sum>p\<leftarrow>xys. f p * f p)"
proof -
  have nonneg: "0 \<le> (\<Sum>p\<leftarrow>xys. f p * f p)"
    by (rule sum_list_nonneg) auto
  have "(\<Sum>p\<leftarrow>xys. f p * f p) \<noteq> 0"
  proof
    assume "(\<Sum>p\<leftarrow>xys. f p * f p) = 0"
    then have "\<forall>v\<in>set (map (\<lambda>p. f p * f p) xys). v = 0"
      by (subst (asm) sum_list_nonneg_eq_0_iff) auto
    with assms show False by auto
  qed
  with nonneg show ?thesis by simp
qed

section \<open>The fit of \<open>leastSquaresFit\<close> on finite samples\<close>

lemma foldl_accumulate_samples:
  "foldl accumulate
     \<lparr>sumX = Fin a1, sumX2 = Fin a2, sumX3 = Fin a3, sumX4 = Fin a4,
      sumY = Fin a5, sumXY = Fin a6, sumX2Y = Fin a7\<rparr> (samples xys) =
   \<lparr>sumX = Fin (a1 + (\<Sum>p\<leftarrow>xys. fst p)),
    sumX2 = Fin (a2 + (\<Sum>p\<leftarrow>xys. fst p * fst p)),
    sumX3 = Fin (a3 + (\<Sum>p\<leftarrow>xys. fst p * fst p * fst p)),
    sumX4 = Fin (a4 + (\<Sum>p\<leftarrow>xys. fst p * fst p * fst p * fst p)),
    sumY = Fin (a5 + (\<Sum>p\<leftarrow>xys. snd p)),
    sumXY = Fin (a6 + (\<Sum>p\<leftarrow>xys. fst p * snd p)),
    sumX2Y = Fin (a7 + (\<Sum>p\<leftarrow>xys. fst p * fst p * snd p))\<rparr>"
  by (induction xys arbitrary: a1 a2 a3 a4 a5 a6 a7)
     (simp_all add: samples_def sample_def accumulate_def add.assoc)

text \<open>On finite samples the function is the closed form over the real sums.\<close>

lemma leastSquaresFit_samples:
  "leastSquaresFit (samples xys) =
     (if length xys < 3 then Inl InsufficientData
      else
        let n = real (length xys);
            S2 = (\<Sum>p\<leftarrow>xys. fst p * fst p);
            S4 = (\<Sum>p\<leftarrow>xys. fst p * fst p * fst p * fst p);
            SY = (\<Sum>p\<leftarrow>xys. snd p);
            S2Y = (\<Sum>p\<leftarrow>xys. fst p * fst p * snd p);
            denom = n * S4 - S2 * S2
        in if \<bar>denom\<bar> < 1 / 10 ^ 10 then Inl SingularSystem
           else Inr \<lparr>coefA = Fin ((SY * S4 - S2Y * S2) / denom),
                     coefB = Fin ((n * S2Y - SY * S2) / denom)\<rparr>)"
  by (simp add: leastSquaresFit_def sums0_def foldl_accumulate_samples Let_def length_samples)

lemma calculateR2_samples:
  assumes "xys \<noteq> []"
  shows "calculateR2 (samples xys) (Fin a) (Fin b) =
     (let yMean = sum_list (map snd xys) / real (length xys);
          ssTot = (\<Sum>p\<leftarrow>xys. (snd p - yMean) * (snd p - yMean));
          ssRes = (\<Sum>p\<leftarrow>xys. (snd p - (a * fst p + b * fst p * fst p))
                               * (snd p - (a * fst p + b * fst p * fst p)))
      in js_sub (Fin 1) (js_div (Fin ssRes) (Fin ssTot)))"
proof -
  have len: "real (length xys) \<noteq> 0" using assms by simp
  have total: "foldl (\<lambda>sum p. js_add sum (py p)) (Fin 0) (samples xys)
               = Fin (0 + sum_list (map snd xys))"
    by (rule foldl_js_add_samples) (simp add: sample_def)
  have mean: "js_div (foldl (\<lambda>sum p. js_add sum (py p)) (Fin 0) (samples xys))
                (Fin (real (length (samples xys))))
              = Fin (sum_list (map snd xys) / real (length xys))"
    using len by (simp add: total length_samples)
  have tot: "foldl (\<lambda>sum p. js_add sum (js_pow (js_sub (py p) (Fin m)) (Fin 2)))
               (Fin 0) (samples xys)
             = Fin (0 + (\<Sum>p\<leftarrow>xys. (snd p - m) * (snd p - m)))" for m
    by (rule foldl_js_add_samples) (simp add: sample_def)
  have res: "foldl (\<lambda>sum p.
                 js_add sum (js_pow (js_sub (py p)
                   (js_add (js_mul (Fin a) (px p)) (js_mul (js_mul (Fin b) (px p)) (px p))))
                   (Fin 2)))
               (Fin 0) (samples xys)
             = Fin (0 + (\<Sum>p\<leftarrow>xys. (snd p - (a * fst p + b * fst p * fst p))
                               * (snd p - (a * fst p + b * fst p * fst p))))"
    by (rule foldl_js_add_samples) (simp add: sample_def)
  show ?thesis
    by (simp add: calculateR2_def Let_def mean tot res)
qed

text \<open>
  C1: samples that lie exactly on \<open>y = A0*x + B0*x^2\<close> give back \<open>A0\<close> and \<open>B0\<close>, and a
  goodness of fit of 1. \<open>leastSquaresFit\<close> does not: on the three samples (1,1), (2,2),
  (3,3) of the line \<open>y = 1*x + 0*x^2\<close> it returns \<open>A = 6/7\<close> and \<open>B = 12/49\<close>, and
  \<open>calculateR2\<close> of these is \<open>-282/343\<close>. The system it solves, \<open>n*A + sumX2*B = sumY\<close> and
  \<open>sumX2*A + sumX4*B = sumX2Y\<close>, is the one of \<open>y = A + B*x^2\<close>.
\<close>

theorem leastSquaresFit_misses_exact_line:
  "leastSquaresFit (samples [(1, 1), (2, 2), (3, 3)])
     = Inr \<lparr>coefA = Fin (6 / 7), coefB = Fin (12 / 49)\<rparr>
   \<and> calculateR2 (samples [(1, 1), (2, 2), (3, 3)]) (Fin (6 / 7)) (Fin (12 / 49))
     = Fin (- (282 / 343))"
  by (simp add: leastSquaresFit_samples calculateR2_samples Let_def)

text \<open>
  With exact arithmetic the determinant \<open>n * sumX4 - sumX2 * sumX2\<close> of samples that all
  have the same x is 0, and the singular-matrix error is thrown.
\<close>

lemma leastSquaresFit_identical_x_exact:
  assumes "3 \<le> length xys" and "\<forall>p\<in>set xys. fst p = c"
  shows "leastSquaresFit (samples xys) = Inl SingularSystem"
proof -
  have s2: "(\<Sum>p\<leftarrow>xys. fst p * fst p) = real (length xys) * (c * c)"
    using assms(2) by (intro sum_list_const) simp
  have s4: "(\<Sum>p\<leftarrow>xys. fst p * fst p * fst p * fst p) = real (length xys) * (c * c * c * c)"
    using assms(2) by (intro sum_list_const) simp
  have "real (length xys) * (real (length xys) * (c * c * c * c))
        - real (length xys) * (c * c) * (real (length xys) * (c * c)) = 0"
    by (simp add: algebra_simps)
  then show ?thesis
    using assms(1) by (simp add: leastSquaresFit_samples s2 s4 Let_def)
qed

text \<open>
  C8: for every non-empty list of finite samples whose y values are not all the same, and
  all finite coefficients, \<open>calculateR2\<close> returns a finite number that is at most 1.
\<close>

theorem calculateR2_at_most_one:
  assumes "xys \<noteq> []" and "\<exists>p\<in>set xys. \<exists>q\<in>set xys. snd p \<noteq> snd q"
  shows "\<exists>r. calculateR2 (samples xys) (Fin a) (Fin b) = Fin r \<and> r \<le> 1"
proof -
  define yMean where "yMean = sum_list (map snd xys) / real (length xys)"
  define ssTot where "ssTot = (\<Sum>p\<leftarrow>xys. (snd p - yMean) * (snd p - yMean))"
  define ssRes where "ssRes = (\<Sum>p\<leftarrow>xys. (snd p - (a * fst p + b * fst p * fst p))
                               * (snd p - (a * fst p + b * fst p * fst p)))"
  from assms(2) obtain p q where pq: "p \<in> set xys" "q \<in> set xys" "snd p \<noteq> snd q"
    by blast
  then have "snd p - yMean \<noteq> 0 \<or> snd q - yMean \<noteq> 0" by auto
  then have tot_pos: "0 < ssTot"
    unfolding ssTot_def using pq(1,2) sum_list_squares_pos [of _ xys "\<lambda>p. snd p - yMean"]
    by blast
  have res_nonneg: "0 \<le> ssRes"
    unfolding ssRes_def by (rule sum_list_nonneg) auto
  have "calculateR2 (samples xys) (Fin a) (Fin b) = Fin (1 - ssRes / ssTot)"
    using assms(1) tot_pos
    by (simp add: calculateR2_samples Let_def yMean_def [symmetric] ssTot_def [symmetric]
        ssRes_def [symmetric])
  moreover have "1 - ssRes / ssTot \<le> 1"
    using tot_pos res_nonneg by simp
  ultimately show ?thesis by blast
qed

theorem calculateR2_at_most_one_witness:
  "\<exists>r. calculateR2 (samples [(1, 1), (2, 3), (3, 2)]) (Fin 1) (Fin 0) = Fin r \<and> r \<le> 1"
  using calculateR2_at_most_one [of "[(1, 1), (2, 3), (3, 2)]" 1 0] by fastforce

text \<open>
  C9: for every list of 0, 1 or 2 data points, \<open>leastSquaresFit\<close> throws the
  "at least 3 data points" error and returns no coefficients.
\<close>

theorem leastSquaresFit_insufficient:
  "length dataPoints < 3 \<Longrightarrow> leastSquaresFit dataPoints = Inl InsufficientData"
  by (simp add: leastSquaresFit_def)

theorem leastSquaresFit_insufficient_witness:
  "leastSquaresFit [] = Inl InsufficientData
   \<and> leastSquaresFit [sample (1, 2)] = Inl InsufficientData
   \<and> leastSquaresFit [sample (1, 2), sample (2, 5)] = Inl InsufficientData"
  using leastSquaresFit_insufficient [of "[]"]
    leastSquaresFit_insufficient [of "[sample (1, 2)]"]
    leastSquaresFit_insufficient [of "[sample (1, 2), sample (2, 5)]"]
  by simp

section \<open>The singularity test in double precision\<close>

lemma roundNearestEven_near:
  assumes "\<bar>y - of_int m\<bar> < 1 / 2"
  shows "roundNearestEven y = m"
proof -
  have "\<lfloor>y\<rfloor> = m \<or> \<lfloor>y\<rfloor> = m - 1"
    using assms by linarith
  then show ?thesis
  proof
    assume f: "\<lfloor>y\<rfloor> = m"
    then have "y - of_int m < 1 / 2" using assms by linarith
    then show ?thesis by (simp add: roundNearestEven_def f Let_def)
  next
    assume f: "\<lfloor>y\<rfloor> = m - 1"
    from assms have "real_of_int m - 1 / 2 < y" by linarith
    then have "1 / 2 < y - of_int (m - 1)" by simp
    then show ?thesis by (simp add: roundNearestEven_def f Let_def)
  qed
qed

lemma floor_log2:
  assumes "2 powi e \<le> a" and "a < 2 powi (e + 1)"
  shows "\<lfloor>log 2 a\<rfloor> = e"
proof -
  have pos: "0 < a"
    using assms(1) by (smt (verit) zero_less_power_int)
  have "real_of_int e \<le> log 2 a"
    using assms(1) pos by (simp add: le_log_iff powr_real_of_int')
  moreover have "log 2 a < real_of_int (e + 1)"
    using assms(2) pos by (simp add: log_less_iff powr_real_of_int' del: of_int_add)
  ultimately show ?thesis
    by (simp add: floor_eq_iff)
qed

lemma round64_near:
  assumes "- 1022 \<le> e" and "e \<le> 1022"
    and "2 powi e \<le> \<bar>x\<bar>" and "\<bar>x\<bar> < 2 powi (e + 1)"
    and "\<bar>x - of_int m * 2 powi (e - 52)\<bar> < 2 powi (e - 52) / 2"
  shows "round64 x = Fin (of_int m * 2 powi (e - 52))"
proof -
  define u :: real where "u = 2 powi (e - 52)"
  have u: "0 < u" unfolding u_def by simp
  have "(0::real) < 2 powi e" by simp
  then have x: "x \<noteq> 0" using assms(3) by linarith
  have e: "max \<lfloor>log 2 \<bar>x\<bar>\<rfloor> (- 1022) = e"
    using floor_log2 [OF assms(3,4)] assms(1) by simp
  have "x / u - of_int m = (x - of_int m * u) / u"
    using u by (simp add: field_simps)
  then have "\<bar>x / u - of_int m\<bar> = \<bar>x - of_int m * u\<bar> / u"
    using u by (simp add: abs_divide)
  also have "\<dots> < (u / 2) / u"
    using assms(5) u unfolding u_def [symmetric] by (simp add: divide_strict_right_mono)
  also have "\<dots> = 1 / 2" using u by simp
  finally have m: "roundNearestEven (x / u) = m"
    by (rule roundNearestEven_near)
  have "\<bar>of_int m * u\<bar> \<le> \<bar>x\<bar> + \<bar>x - of_int m * u\<bar>"
    by linarith
  also have "\<dots> < 2 powi (e + 1) + u / 2"
    using assms(4,5) unfolding u_def [symmetric] by linarith
  also have "\<dots> \<le> 2 powi 1023 + 2 powi 1023"
  proof -
    have "(2::real) powi (e + 1) \<le> 2 powi 1023"
      using assms(2) by (intro power_int_increasing) simp_all
    moreover have "u / 2 = 2 powi (e - 53)"
      unfolding u_def by (simp add: power_int_diff)
    moreover have "(2::real) powi (e - 53) \<le> 2 powi 1023"
      using assms(2) by (intro power_int_increasing) simp_all
    ultimately show ?thesis by linarith
  qed
  also have "\<dots> = 2 ^ 1024"
    by simp
  finally have small: "\<not> 2 ^ 1024 \<le> \<bar>of_int m * u\<bar>" by simp
  show ?thesis
    using x small unfolding round64_def e Let_def u_def [symmetric] m by simp
qed


lemma round64_zero: "round64 0 = Fin 0"
  by (simp add: round64_def)

lemma round64_value:
  assumes "- 1022 \<le> e" and "e \<le> 1022"
    and "2 powi e \<le> \<bar>x\<bar>" and "\<bar>x\<bar> < 2 powi (e + 1)"
    and "\<bar>x - r\<bar> < 2 powi (e - 52) / 2"
    and "r = of_int m * 2 powi (e - 52)"
  shows "round64 x = Fin r"
  using round64_near [OF assms(1-4), of m] assms(5,6) by simp

lemma add64_Fin: "round64 (a + b) = Fin r \<Longrightarrow> add64 (Fin a) (Fin b) = Fin r"
  by (simp add: add64_def)

lemma sub64_Fin: "round64 (a - b) = Fin r \<Longrightarrow> sub64 (Fin a) (Fin b) = Fin r"
  by (simp add: sub64_def)

lemma mul64_Fin: "round64 (a * b) = Fin r \<Longrightarrow> mul64 (Fin a) (Fin b) = Fin r"
  by (simp add: mul64_def)

lemma div64_Fin: "b \<noteq> 0 \<Longrightarrow> round64 (a / b) = Fin r \<Longrightarrow> div64 (Fin a) (Fin b) = Fin r"
  by (simp add: div64_def)

lemma leastSquaresFit64_three_equal:
  assumes xx: "mul64 (Fin x) (Fin x) = Fin xx"
    and xxx: "mul64 (Fin xx) (Fin x) = Fin xxx"
    and xxxx: "mul64 (Fin xxx) (Fin x) = Fin xxxx"
    and xxy: "mul64 (Fin xx) (Fin y) = Fin xxy"
    and s2: "add64 (Fin 0) (Fin xx) = Fin s2a" "add64 (Fin s2a) (Fin xx) = Fin s2b"
      "add64 (Fin s2b) (Fin xx) = Fin s2"
    and s4: "add64 (Fin 0) (Fin xxxx) = Fin s4a" "add64 (Fin s4a) (Fin xxxx) = Fin s4b"
      "add64 (Fin s4b) (Fin xxxx) = Fin s4"
    and sy: "add64 (Fin 0) (Fin y) = Fin sya" "add64 (Fin sya) (Fin y) = Fin syb"
      "add64 (Fin syb) (Fin y) = Fin sy"
    and s2y: "add64 (Fin 0) (Fin xxy) = Fin s2ya" "add64 (Fin s2ya) (Fin xxy) = Fin s2yb"
      "add64 (Fin s2yb) (Fin xxy) = Fin s2y"
    and det: "mul64 (Fin 3) (Fin s4) = Fin t1" "mul64 (Fin s2) (Fin s2) = Fin t2"
      "sub64 (Fin t1) (Fin t2) = Fin d"
    and eps: "epsilon64 = Fin eps" "\<not> \<bar>d\<bar> < eps"
    and A: "mul64 (Fin sy) (Fin s4) = Fin u1" "mul64 (Fin s2y) (Fin s2) = Fin u2"
      "sub64 (Fin u1) (Fin u2) = Fin u3" "div64 (Fin u3) (Fin d) = Fin A"
    and B: "mul64 (Fin 3) (Fin s2y) = Fin v1" "mul64 (Fin sy) (Fin s2) = Fin v2"
      "sub64 (Fin v1) (Fin v2) = Fin v3" "div64 (Fin v3) (Fin d) = Fin B"
  shows "leastSquaresFit64 [\<lparr>px = Fin x, py = Fin y\<rparr>, \<lparr>px = Fin x, py = Fin y\<rparr>,
           \<lparr>px = Fin x, py = Fin y\<rparr>] = Inr \<lparr>coefA = Fin A, coefB = Fin B\<rparr>"
  by (simp add: leastSquaresFit64_def accumulate64_def sums0_def Let_def assms)


text \<open>
  C2: for every list of at least 3 samples that all have the same x, the fit throws the
  singular-matrix error. In double precision it does not for three samples \<open>(33.3, 2)\<close>:
  \<open>3 * sumX4\<close> and \<open>sumX2 * sumX2\<close> round to neighbouring doubles, the determinant is
  \<open>-2^-29\<close> (about \<open>-1.86e-9\<close>), which is not below \<open>1e-10\<close> in magnitude, and the
  fit returns \<open>A = 2\<close> and \<open>B = 0\<close>.
\<close>

theorem leastSquaresFit64_identical_x:
  "leastSquaresFit64
     [\<lparr>px = round64 33.3, py = Fin 2\<rparr>, \<lparr>px = round64 33.3, py = Fin 2\<rparr>,
      \<lparr>px = round64 33.3, py = Fin 2\<rparr>]
     = Inr \<lparr>coefA = Fin 2, coefB = Fin 0\<rparr>"
proof -
  have x: "round64 33.3 = Fin (2343279181116211 / 2 ^ 46)"
    by (rule round64_value [where e = 5 and m = 4686558362232422]) (simp_all add: power_int_minus)
  have eps: "epsilon64 = Fin (7737125245533627 / 2 ^ 86)"
    unfolding epsilon64_def
    by (rule round64_value [where e = "-34" and m = 7737125245533627])
       (simp_all add: power_int_minus)
  have above: "\<not> \<bar>- (1 / 2 ^ 29)\<bar> < (7737125245533627 / 2 ^ 86 :: real)"
    by simp
  have step_xx: "mul64 (Fin (2343279181116211 / 2 ^ 46)) (Fin (2343279181116211 / 2 ^ 46))
            = Fin (2438474897849057 / 2 ^ 41)"
    by (rule mul64_Fin, rule round64_value [where e = "10" and m = "4876949795698114"])
       (simp_all add: power_int_minus)
  have step_xxx: "mul64 (Fin (2438474897849057 / 2 ^ 41)) (Fin (2343279181116211 / 2 ^ 46))
            = Fin (5075075881148349 / 2 ^ 37)"
    by (rule mul64_Fin, rule round64_value [where e = "15" and m = "5075075881148349"])
       (simp_all add: power_int_minus)
  have step_xxxx: "mul64 (Fin (5075075881148349 / 2 ^ 37)) (Fin (2343279181116211 / 2 ^ 46))
            = Fin (165039088713125 / 2 ^ 27)"
    by (rule mul64_Fin, rule round64_value [where e = "20" and m = "5281250838820000"])
       (simp_all add: power_int_minus)
  have step_xxy: "mul64 (Fin (2438474897849057 / 2 ^ 41)) (Fin 2)
            = Fin (2438474897849057 / 2 ^ 40)"
    by (rule mul64_Fin, rule round64_value [where e = "11" and m = "4876949795698114"])
       (simp_all add: power_int_minus)
  have step_s2a: "add64 (Fin 0) (Fin (2438474897849057 / 2 ^ 41))
            = Fin (2438474897849057 / 2 ^ 41)"
    by (rule add64_Fin, rule round64_value [where e = "10" and m = "4876949795698114"])
       (simp_all add: power_int_minus)
  have step_s2b: "add64 (Fin (2438474897849057 / 2 ^ 41)) (Fin (2438474897849057 / 2 ^ 41))
            = Fin (2438474897849057 / 2 ^ 40)"
    by (rule add64_Fin, rule round64_value [where e = "11" and m = "4876949795698114"])
       (simp_all add: power_int_minus)
  have step_s2: "add64 (Fin (2438474897849057 / 2 ^ 40)) (Fin (2438474897849057 / 2 ^ 41))
            = Fin (7315424693547171 / 2 ^ 41)"
    by (rule add64_Fin, rule round64_value [where e = "11" and m = "7315424693547171"])
       (simp_all add: power_int_minus)
  have step_s4a: "add64 (Fin 0) (Fin (165039088713125 / 2 ^ 27)) = Fin (165039088713125 / 2 ^ 27)"
    by (rule add64_Fin, rule round64_value [where e = "20" and m = "5281250838820000"])
       (simp_all add: power_int_minus)
  have step_s4b: "add64 (Fin (165039088713125 / 2 ^ 27)) (Fin (165039088713125 / 2 ^ 27))
            = Fin (165039088713125 / 2 ^ 26)"
    by (rule add64_Fin, rule round64_value [where e = "21" and m = "5281250838820000"])
       (simp_all add: power_int_minus)
  have step_s4: "add64 (Fin (165039088713125 / 2 ^ 26)) (Fin (165039088713125 / 2 ^ 27))
            = Fin (495117266139375 / 2 ^ 27)"
    by (rule add64_Fin, rule round64_value [where e = "21" and m = "7921876258230000"])
       (simp_all add: power_int_minus)
  have step_sya: "add64 (Fin 0) (Fin 2) = Fin 2"
    by (rule add64_Fin, rule round64_value [where e = "1" and m = "4503599627370496"])
       (simp_all add: power_int_minus)
  have step_syb: "add64 (Fin 2) (Fin 2) = Fin 4"
    by (rule add64_Fin, rule round64_value [where e = "2" and m = "4503599627370496"])
       (simp_all add: power_int_minus)
  have step_sy: "add64 (Fin 4) (Fin 2) = Fin 6"
    by (rule add64_Fin, rule round64_value [where e = "2" and m = "6755399441055744"])
       (simp_all add: power_int_minus)
  have step_s2ya: "add64 (Fin 0) (Fin (2438474897849057 / 2 ^ 40))
            = Fin (2438474897849057 / 2 ^ 40)"
    by (rule add64_Fin, rule round64_value [where e = "11" and m = "4876949795698114"])
       (simp_all add: power_int_minus)
  have step_s2yb: "add64 (Fin (2438474897849057 / 2 ^ 40)) (Fin (2438474897849057 / 2 ^ 40))
            = Fin (2438474897849057 / 2 ^ 39)"
    by (rule add64_Fin, rule round64_value [where e = "12" and m = "4876949795698114"])
       (simp_all add: power_int_minus)
  have step_s2y: "add64 (Fin (2438474897849057 / 2 ^ 39)) (Fin (2438474897849057 / 2 ^ 40))
            = Fin (7315424693547171 / 2 ^ 40)"
    by (rule add64_Fin, rule round64_value [where e = "12" and m = "7315424693547171"])
       (simp_all add: power_int_minus)
  have step_t1: "mul64 (Fin 3) (Fin (495117266139375 / 2 ^ 27)) = Fin (1485351798418125 / 2 ^ 27)"
    by (rule mul64_Fin, rule round64_value [where e = "23" and m = "5941407193672500"])
       (simp_all add: power_int_minus)
  have step_t2: "mul64 (Fin (7315424693547171 / 2 ^ 41)) (Fin (7315424693547171 / 2 ^ 41))
            = Fin (5941407193672501 / 2 ^ 29)"
    by (rule mul64_Fin, rule round64_value [where e = "23" and m = "5941407193672501"])
       (simp_all add: power_int_minus)
  have step_d: "sub64 (Fin (1485351798418125 / 2 ^ 27)) (Fin (5941407193672501 / 2 ^ 29))
            = Fin (- (1 / 2 ^ 29))"
    by (rule sub64_Fin, rule round64_value [where e = "-29" and m = "-4503599627370496"])
       (simp_all add: power_int_minus)
  have step_u1: "mul64 (Fin 6) (Fin (495117266139375 / 2 ^ 27)) = Fin (1485351798418125 / 2 ^ 26)"
    by (rule mul64_Fin, rule round64_value [where e = "24" and m = "5941407193672500"])
       (simp_all add: power_int_minus)
  have step_u2: "mul64 (Fin (7315424693547171 / 2 ^ 40)) (Fin (7315424693547171 / 2 ^ 41))
            = Fin (5941407193672501 / 2 ^ 28)"
    by (rule mul64_Fin, rule round64_value [where e = "24" and m = "5941407193672501"])
       (simp_all add: power_int_minus)
  have step_u3: "sub64 (Fin (1485351798418125 / 2 ^ 26)) (Fin (5941407193672501 / 2 ^ 28))
            = Fin (- (1 / 2 ^ 28))"
    by (rule sub64_Fin, rule round64_value [where e = "-28" and m = "-4503599627370496"])
       (simp_all add: power_int_minus)
  have step_A: "div64 (Fin (- (1 / 2 ^ 28))) (Fin (- (1 / 2 ^ 29))) = Fin 2"
    by (rule div64_Fin, simp, rule round64_value [where e = "1" and m = "4503599627370496"])
       (simp_all add: power_int_minus)
  have step_v1: "mul64 (Fin 3) (Fin (7315424693547171 / 2 ^ 40))
            = Fin (2743284260080189 / 2 ^ 37)"
    by (rule mul64_Fin, rule round64_value [where e = "14" and m = "5486568520160378"])
       (simp_all add: power_int_minus)
  have step_v2: "mul64 (Fin 6) (Fin (7315424693547171 / 2 ^ 41))
            = Fin (2743284260080189 / 2 ^ 37)"
    by (rule mul64_Fin, rule round64_value [where e = "14" and m = "5486568520160378"])
       (simp_all add: power_int_minus)
  have step_v3: "sub64 (Fin (2743284260080189 / 2 ^ 37)) (Fin (2743284260080189 / 2 ^ 37))
            = Fin 0"
    by (rule sub64_Fin) (simp add: round64_zero)
  have step_B: "div64 (Fin 0) (Fin (- (1 / 2 ^ 29))) = Fin 0"
    by (rule div64_Fin) (simp_all add: round64_zero)
  show ?thesis
    unfolding x
    by (rule leastSquaresFit64_three_equal
        [OF step_xx step_xxx step_xxxx step_xxy
          step_s2a step_s2b step_s2 step_s4a step_s4b step_s4 step_sya step_syb step_sy step_s2ya step_s2yb step_s2y
          step_t1 step_t2 step_d eps above
          step_u1 step_u2 step_u3 step_A step_v1 step_v2 step_v3 step_B])
qed


section \<open>The fit of \<open>fitCurve\<close> on finite samples\<close>

lemma foldl_fitStep_samples:
  "n \<le> length xys \<Longrightarrow>
   foldl (fitStep (column fst xys) (column snd xys))
     \<lparr>sX2 = Fin 0, sX3 = Fin 0, sX4 = Fin 0, sXY = Fin 0, sX2Y = Fin 0\<rparr> [0 ..< n] =
   \<lparr>sX2 = Fin (\<Sum>p\<leftarrow>take n xys. fst p * fst p),
    sX3 = Fin (\<Sum>p\<leftarrow>take n xys. fst p * fst p * fst p),
    sX4 = Fin (\<Sum>p\<leftarrow>take n xys. fst p * fst p * fst p * fst p),
    sXY = Fin (\<Sum>p\<leftarrow>take n xys. fst p * snd p),
    sX2Y = Fin (\<Sum>p\<leftarrow>take n xys. fst p * fst p * snd p)\<rparr>"
proof (induction n)
  case 0
  show ?case by simp
next
  case (Suc n)
  then have n: "n < length xys" by simp
  then have take: "take (Suc n) xys = take n xys @ [xys ! n]"
    by (simp add: take_Suc_conv_app_nth)
  show ?case
    using Suc.IH n by (simp add: take fitStep_def column_def Let_def)
qed

lemma fitCurve_samples:
  "fitCurve (column fst xys) (column snd xys) =
     (let S2 = (\<Sum>p\<leftarrow>xys. fst p * fst p);
          S3 = (\<Sum>p\<leftarrow>xys. fst p * fst p * fst p);
          S4 = (\<Sum>p\<leftarrow>xys. fst p * fst p * fst p * fst p);
          SXY = (\<Sum>p\<leftarrow>xys. fst p * snd p);
          SX2Y = (\<Sum>p\<leftarrow>xys. fst p * fst p * snd p)
      in \<lparr>coefA = js_div (Fin (S4 * SXY - S3 * SX2Y)) (Fin (S2 * S4 - S3 * S3)),
          coefB = js_div (Fin (S2 * SX2Y - S3 * SXY)) (Fin (S2 * S4 - S3 * S3))\<rparr>)"
proof -
  have len: "length (column fst xys) = length xys" by (simp add: column_def)
  show ?thesis
    unfolding fitCurve_def len
    by (simp add: foldl_fitStep_samples [of "length xys" xys, simplified] Let_def
        del: js_div.simps)
qed

lemma sum_list_linear3:
  "(\<Sum>p\<leftarrow>ps. a * f p + b * g p + c * h p)
     = a * sum_list (map f ps) + b * sum_list (map g ps) + (c::real) * sum_list (map h ps)"
  by (induction ps) (simp_all add: algebra_simps)

lemma sum_list_linear2:
  "(\<Sum>p\<leftarrow>ps. a * f p + b * g p) = a * sum_list (map f ps) + (b::real) * sum_list (map g ps)"
  by (induction ps) (simp_all add: algebra_simps)

lemma fit_determinant_nonzero:
  fixes xys :: "(real \<times> real) list"
  assumes "p \<in> set xys" and "q \<in> set xys"
    and "fst p \<noteq> 0" and "fst q \<noteq> 0" and "fst p \<noteq> fst q"
  shows "(\<Sum>p\<leftarrow>xys. fst p * fst p) * (\<Sum>p\<leftarrow>xys. fst p * fst p * fst p * fst p)
         - (\<Sum>p\<leftarrow>xys. fst p * fst p * fst p) * (\<Sum>p\<leftarrow>xys. fst p * fst p * fst p) \<noteq> 0"
proof
  define S2 where "S2 = (\<Sum>p\<leftarrow>xys. fst p * fst p)"
  define S3 where "S3 = (\<Sum>p\<leftarrow>xys. fst p * fst p * fst p)"
  define S4 where "S4 = (\<Sum>p\<leftarrow>xys. fst p * fst p * fst p * fst p)"
  assume "(\<Sum>p\<leftarrow>xys. fst p * fst p) * (\<Sum>p\<leftarrow>xys. fst p * fst p * fst p * fst p)
         - (\<Sum>p\<leftarrow>xys. fst p * fst p * fst p) * (\<Sum>p\<leftarrow>xys. fst p * fst p * fst p) = 0"
  then have det: "S2 * S4 - S3 * S3 = 0"
    by (simp add: S2_def S3_def S4_def)
  have S2_pos: "0 < S2"
    unfolding S2_def using assms(1,3) by (rule sum_list_squares_pos)
  have "(\<Sum>r\<leftarrow>xys. (fst r * S3 - fst r * fst r * S2) * (fst r * S3 - fst r * fst r * S2))
        = (\<Sum>r\<leftarrow>xys. (S3 * S3) * (fst r * fst r) + (- 2 * S3 * S2) * (fst r * fst r * fst r)
                     + (S2 * S2) * (fst r * fst r * fst r * fst r))"
    by (rule arg_cong [where f = sum_list], rule map_cong) (simp_all add: algebra_simps)
  also have "\<dots> = (S3 * S3) * S2 + (- 2 * S3 * S2) * S3 + (S2 * S2) * S4"
    unfolding S2_def S3_def S4_def by (rule sum_list_linear3)
  also have "\<dots> = S2 * (S2 * S4 - S3 * S3)"
    by (simp add: algebra_simps)
  also have "\<dots> = 0" using det by simp
  finally have zero: "(\<Sum>r\<leftarrow>xys. (fst r * S3 - fst r * fst r * S2)
                            * (fst r * S3 - fst r * fst r * S2)) = 0" .
  have each: "fst r * S3 - fst r * fst r * S2 = 0" if "r \<in> set xys" for r
  proof (rule ccontr)
    assume "fst r * S3 - fst r * fst r * S2 \<noteq> 0"
    with that have "0 < (\<Sum>r\<leftarrow>xys. (fst r * S3 - fst r * fst r * S2)
                            * (fst r * S3 - fst r * fst r * S2))"
      by (rule sum_list_squares_pos)
    with zero show False by simp
  qed
  have "fst p * (S3 - fst p * S2) = 0"
    using each [OF assms(1)] by (simp add: algebra_simps)
  then have ep: "S3 = fst p * S2" using assms(3) by simp
  have "fst q * (S3 - fst q * S2) = 0"
    using each [OF assms(2)] by (simp add: algebra_simps)
  then have eq: "S3 = fst q * S2" using assms(4) by simp
  from ep eq have "fst p * S2 = fst q * S2" by (simp only:)
  with S2_pos have "fst p = fst q" by auto
  with assms(5) show False by simp
qed

text \<open>
  The second formulation solves the normal equations of \<open>y = A*x + B*x^2\<close>: for finite
  samples that lie exactly on \<open>y = A0*x + B0*x^2\<close>, two of them with distinct non-zero x,
  \<open>fitCurve\<close> returns \<open>A0\<close> and \<open>B0\<close>.
\<close>

theorem fitCurve_recovers:
  assumes "\<forall>p\<in>set xys. snd p = A0 * fst p + B0 * (fst p)\<^sup>2"
    and "\<exists>p\<in>set xys. \<exists>q\<in>set xys. fst p \<noteq> 0 \<and> fst q \<noteq> 0 \<and> fst p \<noteq> fst q"
  shows "fitCurve (column fst xys) (column snd xys) = \<lparr>coefA = Fin A0, coefB = Fin B0\<rparr>"
proof -
  define S2 where "S2 = (\<Sum>p\<leftarrow>xys. fst p * fst p)"
  define S3 where "S3 = (\<Sum>p\<leftarrow>xys. fst p * fst p * fst p)"
  define S4 where "S4 = (\<Sum>p\<leftarrow>xys. fst p * fst p * fst p * fst p)"
  define D where "D = S2 * S4 - S3 * S3"
  from assms(2) obtain p q where "p \<in> set xys" "q \<in> set xys"
    "fst p \<noteq> 0" "fst q \<noteq> 0" "fst p \<noteq> fst q" by blast
  then have D: "D \<noteq> 0"
    unfolding D_def S2_def S3_def S4_def by (rule fit_determinant_nonzero)
  have "(\<Sum>p\<leftarrow>xys. fst p * snd p)
        = (\<Sum>p\<leftarrow>xys. A0 * (fst p * fst p) + B0 * (fst p * fst p * fst p))"
    using assms(1)
    by (intro arg_cong [where f = sum_list] map_cong) (simp_all add: algebra_simps power2_eq_square)
  then have sxy: "(\<Sum>p\<leftarrow>xys. fst p * snd p) = A0 * S2 + B0 * S3"
    unfolding S2_def S3_def by (simp only: sum_list_linear2)
  have "(\<Sum>p\<leftarrow>xys. fst p * fst p * snd p)
        = (\<Sum>p\<leftarrow>xys. A0 * (fst p * fst p * fst p) + B0 * (fst p * fst p * fst p * fst p))"
    using assms(1)
    by (intro arg_cong [where f = sum_list] map_cong) (simp_all add: algebra_simps power2_eq_square)
  then have sx2y: "(\<Sum>p\<leftarrow>xys. fst p * fst p * snd p) = A0 * S3 + B0 * S4"
    unfolding S3_def S4_def by (simp only: sum_list_linear2)
  have a: "S4 * (A0 * S2 + B0 * S3) - S3 * (A0 * S3 + B0 * S4) = A0 * D"
    unfolding D_def by (simp add: algebra_simps)
  have b: "S2 * (A0 * S3 + B0 * S4) - S3 * (A0 * S2 + B0 * S3) = B0 * D"
    unfolding D_def by (simp add: algebra_simps)
  have "fitCurve (column fst xys) (column snd xys)
        = \<lparr>coefA = js_div (Fin (A0 * D)) (Fin D), coefB = js_div (Fin (B0 * D)) (Fin D)\<rparr>"
    by (simp add: fitCurve_samples Let_def sxy sx2y S2_def [symmetric] S3_def [symmetric]
        S4_def [symmetric] a b D_def [symmetric] del: js_div.simps)
  then show ?thesis
    using D by simp
qed

theorem fitCurve_recovers_witness:
  "fitCurve [Fin 1, Fin 2, Fin 3] [Fin 1, Fin 2, Fin 3] = \<lparr>coefA = Fin 1, coefB = Fin 0\<rparr>"
  using fitCurve_recovers [of "[(1, 1), (2, 2), (3, 3)]" 1 0]
  by (simp add: column_def)

text \<open>
  \<open>fitCurve\<close> has neither of the two checks of \<open>leastSquaresFit\<close>: on three samples with
  the same x it returns \<open>NaN\<close> coefficients, and on a single sample as well.
\<close>

lemma fitCurve_identical_x:
  "fitCurve [Fin 2, Fin 2, Fin 2] [Fin 1, Fin 5, Fin 7] = \<lparr>coefA = NaN, coefB = NaN\<rparr>"
  using fitCurve_samples [of "[(2, 1), (2, 5), (2, 7)]"] by (simp add: column_def)

lemma fitCurve_one_sample:
  "fitCurve [Fin 2] [Fin 1] = \<lparr>coefA = NaN, coefB = NaN\<rparr>"
  using fitCurve_samples [of "[(2, 1)]"] by (simp add: column_def)

section \<open>Darcy and Forchheimer coefficients\<close>

text \<open>
  The coefficients that \<open>performCurveFitting\<close> returns are those of
  \<open>calcDarcyForchheimer\<close> at the fitted \<open>A\<close> and \<open>B\<close>.
\<close>

lemma performCurveFitting_coefficients:
  "performCurveFitting dataPoints L density viscosity = Some r \<Longrightarrow>
   calcDarcyForchheimer (resA r) (resB r) viscosity density L
     = \<lparr>darcy = res_d r, forchheimer = res_f r\<rparr>"
  by (auto simp: performCurveFitting_def calcDarcyForchheimer_def Let_def
      split: if_splits sum.splits)

text \<open>
  C3 as stated: when \<open>mu*L\<close> or \<open>rho*L\<close> is 0 the derivation fails instead of producing an
  infinite value. It does not fail: for \<open>A = B = 1\<close>, \<open>mu = rho = 0\<close>, \<open>L = 1\<close>
  \<open>calcDarcyForchheimer\<close> returns \<open>d = Infinity\<close> and \<open>f = Infinity\<close>, and for the samples
  (1,1), (2,2), (3,3) and \<open>L = 0\<close> \<open>performCurveFitting\<close> returns a result, not \<open>null\<close>, with
  \<open>d = Infinity\<close> and \<open>f = Infinity\<close>.
\<close>

theorem calcDarcyForchheimer_zero_divisor_counterexample:
  "calcDarcyForchheimer (Fin 1) (Fin 1) (Fin 0) (Fin 0) (Fin 1)
     = \<lparr>darcy = PInf, forchheimer = PInf\<rparr>
   \<and> performCurveFitting (samples [(1, 1), (2, 2), (3, 3)]) (Fin 0) (Fin 998) (Fin 0.001)
     = Some \<lparr>resA = Fin (6 / 7), resB = Fin (12 / 49), res_d = PInf, res_f = PInf,
              resR2 = Fin (- (282 / 343))\<rparr>"
  by (simp add: calcDarcyForchheimer_def performCurveFitting_def leastSquaresFit_samples
      calculateR2_samples length_samples signed_inf_def Let_def)

text \<open>
  C3 as amended: for finite arguments, when \<open>mu*L = 0\<close> the derivation returns a \<open>d\<close> that
  is not finite, \<open>NaN\<close> exactly when \<open>A = 0\<close> and an infinity otherwise; when \<open>rho*L = 0\<close>
  it returns an \<open>f\<close> that is not finite, \<open>NaN\<close> exactly when \<open>B = 0\<close>. No error is raised:
  the function has no failing result.
\<close>

theorem calcDarcyForchheimer_zero_divisor:
  "(mu * L = 0 \<longrightarrow>
      \<not> isFinite (darcy (calcDarcyForchheimer (Fin A) (Fin B) (Fin mu) (Fin rho) (Fin L)))
      \<and> (darcy (calcDarcyForchheimer (Fin A) (Fin B) (Fin mu) (Fin rho) (Fin L)) = NaN
           \<longleftrightarrow> A = 0))
   \<and> (rho * L = 0 \<longrightarrow>
      \<not> isFinite (forchheimer (calcDarcyForchheimer (Fin A) (Fin B) (Fin mu) (Fin rho) (Fin L)))
      \<and> (forchheimer (calcDarcyForchheimer (Fin A) (Fin B) (Fin mu) (Fin rho) (Fin L)) = NaN
           \<longleftrightarrow> B = 0))"
  by (auto simp: calcDarcyForchheimer_def signed_inf_def)

theorem calcDarcyForchheimer_zero_divisor_witness:
  "\<not> isFinite (darcy (calcDarcyForchheimer (Fin 1) (Fin 0) (Fin 0) (Fin 0) (Fin 1)))
   \<and> darcy (calcDarcyForchheimer (Fin 1) (Fin 0) (Fin 0) (Fin 0) (Fin 1)) \<noteq> NaN
   \<and> forchheimer (calcDarcyForchheimer (Fin 1) (Fin 0) (Fin 0) (Fin 0) (Fin 1)) = NaN"
  using calcDarcyForchheimer_zero_divisor [of 0 1 1 0 0] by simp

text \<open>
  C5: for all finite \<open>A\<close>, \<open>B\<close>, \<open>mu\<close>, \<open>rho\<close>, \<open>L\<close> with \<open>mu*L\<close> and \<open>rho*L\<close> non-zero the
  derivation returns \<open>d = A / (mu*L)\<close> and \<open>f = 2*B / (rho*L)\<close>; for \<open>A = 2.5\<close>, \<open>B = 0.8\<close>,
  \<open>mu = 0.001\<close>, \<open>rho = 998\<close>, \<open>L = 0.1\<close> it returns \<open>d = 25000\<close> and \<open>f = 1.6/99.8\<close>.
\<close>

theorem calcDarcyForchheimer_formula:
  "(mu * L \<noteq> 0 \<and> rho * L \<noteq> 0 \<longrightarrow>
      calcDarcyForchheimer (Fin A) (Fin B) (Fin mu) (Fin rho) (Fin L)
        = \<lparr>darcy = Fin (A / (mu * L)), forchheimer = Fin (2 * B / (rho * L))\<rparr>)
   \<and> calcDarcyForchheimer (Fin 2.5) (Fin 0.8) (Fin 0.001) (Fin 998) (Fin 0.1)
        = \<lparr>darcy = Fin 25000, forchheimer = Fin (1.6 / 99.8)\<rparr>"
  by (simp add: calcDarcyForchheimer_def)

theorem calcDarcyForchheimer_formula_witness:
  "calcDarcyForchheimer (Fin 3) (Fin 5) (Fin 2) (Fin 4) (Fin (1 / 2))
     = \<lparr>darcy = Fin 3, forchheimer = Fin 5\<rparr>"
  using calcDarcyForchheimer_formula [of 2 "1 / 2" 4 3 5] by simp

section \<open>Density\<close>

text \<open>
  C7: for every fluid of the table with a finite non-zero reference density,
  \<open>getDensityAtTemp\<close> at 288.15 K returns the reference density itself, and at every
  finite temperature \<open>T\<close> it returns \<open>DensityAt15C * (1 - 0.00065 * (T - 288.15))\<close>.
\<close>

theorem getDensityAtTemp_formula:
  assumes "fluidData name = Some fl" and "DensityAt15C fl = Some (Fin rhoRef)" and "rhoRef \<noteq> 0"
  shows "getDensityAtTemp fluidData name (Fin 288.15) = Fin rhoRef
    \<and> getDensityAtTemp fluidData name (Fin T) = Fin (rhoRef * (1 - 0.00065 * (T - 288.15)))"
  using assms
  by (simp add: getDensityAtTemp_def DENSITY_COEFFICIENT_def REFERENCE_TEMP_K_def)

theorem getDensityAtTemp_formula_witness:
  "getDensityAtTemp thinFluidTable ''Thin'' (Fin 288.15) = Fin 800
   \<and> getDensityAtTemp thinFluidTable ''Thin'' (Fin 388.15) = Fin 748"
  using getDensityAtTemp_formula
    [where fluidData = thinFluidTable and name = "''Thin''" and rhoRef = 800 and T = "388.15"]
  by (simp add: thinFluidTable_def)

text \<open>
  C10: for every fluid of the table whose \<open>DensityAt15C\<close> is 0 or missing,
  \<open>getDensityAtTemp\<close> returns \<open>NaN\<close> at every finite temperature, the value it returns when
  the name is not in the table, and \<open>getDynViscAtTemp\<close> returns \<open>NaN\<close> as well.
\<close>

theorem zero_density_is_NaN:
  assumes "fluidData name = Some fl"
    and "DensityAt15C fl = None \<or> DensityAt15C fl = Some (Fin 0)"
  shows "getDensityAtTemp fluidData name (Fin T) = NaN
    \<and> getDensityAtTemp fluidData name (Fin T) = getDensityAtTemp (fluidData(name := None)) name (Fin T)
    \<and> getDynViscAtTemp fluidData name (Fin T) = NaN"
proof -
  have d: "getDensityAtTemp fluidData name (Fin T) = NaN"
    using assms by (auto simp: getDensityAtTemp_def)
  have u: "getDensityAtTemp (fluidData(name := None)) name (Fin T) = NaN"
    by (simp add: getDensityAtTemp_def)
  have v: "getDynViscAtTemp fluidData name (Fin T) = NaN"
    by (simp add: getDynViscAtTemp_def d Let_def)
  from d u v show ?thesis by simp
qed

theorem zero_density_is_NaN_witness:
  "getDensityAtTemp zeroDensityTable ''Test Oil'' (Fin 313.15) = NaN
   \<and> getDynViscAtTemp zeroDensityTable ''Test Oil'' (Fin 313.15) = NaN
   \<and> getDensityAtTemp noDensityTable ''Test Oil'' (Fin 313.15) = NaN
   \<and> getDynViscAtTemp noDensityTable ''Test Oil'' (Fin 313.15) = NaN"
  using zero_density_is_NaN
    [where fluidData = zeroDensityTable and name = "''Test Oil''" and T = "313.15"]
    zero_density_is_NaN
    [where fluidData = noDensityTable and name = "''Test Oil''" and T = "313.15"]
  by (simp add: zeroDensityTable_def noDensityTable_def)

section \<open>Kinematic viscosity\<close>

lemma js_log10_above_one:
  assumes "1 < x"
  shows "js_log10 (Fin x) = Fin (log 10 x)"
    and "js_log10 (Fin (log 10 x)) = Fin (log 10 (log 10 x))"
proof -
  show "js_log10 (Fin x) = Fin (log 10 x)"
    using assms by simp
  have "0 < log 10 x" using assms by simp
  then have "\<not> log 10 x < 0" and "log 10 x \<noteq> 0" by linarith+
  then show "js_log10 (Fin (log 10 x)) = Fin (log 10 (log 10 x))"
    by (simp only: js_log10.simps if_False)
qed

lemma log10_inj:
  assumes "0 < s" and "0 < t" and "s \<noteq> t"
  shows "log 10 t \<noteq> log 10 (s::real)"
proof (cases "s < t")
  case True
  then have "log 10 s < log 10 t" using assms by simp
  then show ?thesis by simp
next
  case False
  then have "t < s" using assms by simp
  then have "log 10 t < log 10 s" using assms by simp
  then show ?thesis by simp
qed

lemma walther_Fin:
  assumes "0.2 < V"
  shows "calculateWaltherTransform (Fin V) = Fin (log 10 (log 10 (V + 0.8)))"
proof -
  have "1 < V + 0.8" using assms by simp
  then show ?thesis
    by (simp add: calculateWaltherTransform_def WALTHER_CONSTANT_def js_log10_above_one
        del: js_log10.simps)
qed

lemma walther_NaN:
  assumes "0 < V + 0.8" and "V + 0.8 < 1"
  shows "calculateWaltherTransform (Fin V) = NaN"
proof -
  have "log 10 (V + 0.8) < 0" using assms by simp
  moreover have "js_log10 (Fin (V + 0.8)) = Fin (log 10 (V + 0.8))"
    using assms by simp
  ultimately show ?thesis
    by (simp add: calculateWaltherTransform_def WALTHER_CONSTANT_def del: js_log10.simps)
       (simp only: js_log10.simps if_True)
qed

lemma inverse_walther:
  assumes "0.2 < V"
  shows "inverseWaltherTransform (Fin (log 10 (log 10 (V + 0.8)))) = Fin V"
proof -
  have one: "1 < V + 0.8" using assms by simp
  then have pos: "0 < log 10 (V + 0.8)" by simp
  have "10 powr (log 10 (log 10 (V + 0.8))) = log 10 (V + 0.8)"
    using pos by simp
  moreover have "10 powr (log 10 (V + 0.8)) = V + 0.8"
    using one by simp
  ultimately show ?thesis
    by (simp add: inverseWaltherTransform_def WALTHER_CONSTANT_def)
qed

lemma getKinViscAtTemp_two_points:
  assumes "fluidData name = Some fl"
    and "KinematicViscosityLimits fl =
           Some (\<lparr>temperature = Fin T1, kinematicViscosity = Fin V1\<rparr>
                 # \<lparr>temperature = Fin T2, kinematicViscosity = Fin V2\<rparr> # rest)"
    and "0 < T1" and "0 < T2" and "T1 \<noteq> T2" and "0.2 < V1" and "0.2 < V2" and "0 < T"
  shows "getKinViscAtTemp fluidData name (Fin T) =
     inverseWaltherTransform
       (Fin ((log 10 (log 10 (V2 + 0.8)) - log 10 (log 10 (V1 + 0.8)))
               / (log 10 T2 - log 10 T1) * log 10 T
             + (log 10 (log 10 (V1 + 0.8))
                - (log 10 (log 10 (V2 + 0.8)) - log 10 (log 10 (V1 + 0.8)))
                    / (log 10 T2 - log 10 T1) * log 10 T1)))"
proof -
  have "log 10 T2 \<noteq> log 10 T1"
    using assms(3-5) by (rule log10_inj)
  then show ?thesis
    using assms
    by (simp add: getKinViscAtTemp_def Let_def walther_Fin)
qed

text \<open>
  C6 as stated: for every fluid with two finite reference points \<open>(T1, nu1)\<close>, \<open>(T2, nu2)\<close>,
  \<open>T1 \<noteq> T2\<close>, \<open>getKinViscAtTemp\<close> at \<open>T1\<close> returns \<open>nu1\<close>. For the reference points
  (300, 0.1) and (400, 0.05) it returns \<open>NaN\<close>: \<open>log10(0.1 + 0.8)\<close> is negative and its
  logarithm is \<open>NaN\<close>.
\<close>

theorem getKinViscAtTemp_thin_fluid_counterexample:
  "getKinViscAtTemp thinFluidTable ''Thin'' (Fin 300) = NaN"
proof -
  have w1: "calculateWaltherTransform (Fin 0.1) = NaN"
    by (rule walther_NaN) simp_all
  have w2: "calculateWaltherTransform (Fin (1 / 20)) = NaN"
    by (rule walther_NaN) simp_all
  have "getKinViscAtTemp thinFluidTable ''Thin'' (Fin 300)
        = inverseWaltherTransform
            (js_add
               (js_mul (js_div (js_sub NaN NaN) (js_sub (js_log10 (Fin 400)) (js_log10 (Fin 300))))
                  (js_log10 (Fin 300)))
               (js_sub NaN
                  (js_mul (js_div (js_sub NaN NaN)
                             (js_sub (js_log10 (Fin 400)) (js_log10 (Fin 300))))
                     (js_log10 (Fin 300)))))"
    unfolding getKinViscAtTemp_def thinFluidTable_def Let_def
    by (simp add: w1 w2 del: js_log10.simps)
  also have "\<dots> = NaN"
    by (simp add: js_sub_def inverseWaltherTransform_def js_pow.simps)
  finally show ?thesis .
qed

text \<open>
  C6 as amended: for every fluid whose first two reference points \<open>(T1, nu1)\<close>, \<open>(T2, nu2)\<close>
  have positive temperatures, \<open>T1 \<noteq> T2\<close>, and viscosities above 0.2 (so that both Walther
  transforms are finite), \<open>getKinViscAtTemp\<close> at \<open>T1\<close> returns \<open>nu1\<close> and at \<open>T2\<close> returns
  \<open>nu2\<close>, exactly over the reals.
\<close>

theorem getKinViscAtTemp_reference_points:
  assumes "fluidData name = Some fl"
    and "KinematicViscosityLimits fl =
           Some [\<lparr>temperature = Fin T1, kinematicViscosity = Fin V1\<rparr>,
                 \<lparr>temperature = Fin T2, kinematicViscosity = Fin V2\<rparr>]"
    and "0 < T1" and "0 < T2" and "T1 \<noteq> T2" and "0.2 < V1" and "0.2 < V2"
  shows "getKinViscAtTemp fluidData name (Fin T1) = Fin V1
       \<and> getKinViscAtTemp fluidData name (Fin T2) = Fin V2"
proof -
  define W1 where "W1 = log 10 (log 10 (V1 + 0.8))"
  define W2 where "W2 = log 10 (log 10 (V2 + 0.8))"
  define m where "m = (W2 - W1) / (log 10 T2 - log 10 T1)"
  have "log 10 T2 - log 10 T1 \<noteq> 0"
    using log10_inj [OF assms(3-5)] by simp
  then have slope: "m * (log 10 T2 - log 10 T1) = W2 - W1"
    unfolding m_def by simp
  have h1: "m * log 10 T1 + (W1 - m * log 10 T1) = W1"
    by simp
  have "m * log 10 T2 + (W1 - m * log 10 T1) = m * (log 10 T2 - log 10 T1) + W1"
    by (simp add: algebra_simps)
  then have h2: "m * log 10 T2 + (W1 - m * log 10 T1) = W2"
    using slope by simp
  have "getKinViscAtTemp fluidData name (Fin T1) = inverseWaltherTransform (Fin W1)"
    using getKinViscAtTemp_two_points
      [where fluidData = fluidData and name = name and rest = "[]", OF assms assms(3)] h1
    unfolding W1_def W2_def m_def by simp
  moreover have "getKinViscAtTemp fluidData name (Fin T2) = inverseWaltherTransform (Fin W2)"
    using getKinViscAtTemp_two_points
      [where fluidData = fluidData and name = name and rest = "[]", OF assms assms(4)] h2
    unfolding W1_def W2_def m_def by simp
  ultimately show ?thesis
    unfolding W1_def W2_def using inverse_walther [OF assms(6)] inverse_walther [OF assms(7)]
    by simp
qed

theorem getKinViscAtTemp_reference_points_witness:
  "getKinViscAtTemp vg32Table ''ISO VG 32'' (Fin 313.15) = Fin 32
   \<and> getKinViscAtTemp vg32Table ''ISO VG 32'' (Fin 373.15) = Fin 5.4"
  using getKinViscAtTemp_reference_points
    [where fluidData = vg32Table and name = "''ISO VG 32''" and ?T1.0 = "313.15" and ?V1.0 = 32
       and ?T2.0 = "373.15" and ?V2.0 = "5.4"]
  by (simp add: vg32Table_def)

section \<open>Unit conversion\<close>

lemma tryTables_no_common_table:
  assumes "\<And>typeName factorTable. (typeName, factorTable) \<in> set registry \<Longrightarrow>
             \<not> hasKey factorTable fromUnit \<or> \<not> hasKey factorTable toUnit"
  shows "tryTables registry originalUnit newUnit fromUnit toUnit v
           = Inl (UnsupportedConversion originalUnit newUnit)"
  using assms
proof (induction registry)
  case Nil
  show ?case by simp
next
  case (Cons entry registry)
  obtain typeName factorTable where entry: "entry = (typeName, factorTable)"
    by (cases entry)
  have "\<not> hasKey factorTable fromUnit \<or> \<not> hasKey factorTable toUnit"
    using Cons.prems [of typeName factorTable] entry by simp
  moreover have "tryTables registry originalUnit newUnit fromUnit toUnit v
           = Inl (UnsupportedConversion originalUnit newUnit)"
  proof (rule Cons.IH)
    fix tn ft
    assume "(tn, ft) \<in> set registry"
    then have "(tn, ft) \<in> set (entry # registry)" by simp
    then show "\<not> hasKey ft fromUnit \<or> \<not> hasKey ft toUnit"
      by (rule Cons.prems)
  qed
  ultimately show ?case
    using entry by auto
qed

lemma unitTypes_table:
  assumes "(typeName, factorTable) \<in> set unitTypeRegistry"
    and "hasKey factorTable u"
  shows "typeName \<in> set (unitTypes u)"
  using assms unfolding unitTypes_def by force

lemma unitTypes_temperature:
  "u \<in> set [''C'', ''F'', ''K''] \<Longrightarrow> ''temperature'' \<in> set (unitTypes u)"
  unfolding unitTypes_def temperatureUnits_def by simp

lemmas table_defs = unitTypeRegistry_def lengthFactors_def areaFactors_def
      densityFactors_def kinViscFactors_def dynViscFactors_def volumeFactors_def
      flowFactors_def pressureFactors_def forceFactors_def temperatureUnits_def
      hasKey_def factorOf_def objectPrototypeKeys_def

text \<open>
  C4 as stated: \<open>convertUnit\<close> never returns a number when a unit is in no table. It does
  when both units are the same string: \<open>furlong\<close> is in no table, and converting 5 from
  \<open>furlong\<close> to \<open>furlong\<close> returns 5.
\<close>

theorem convertUnit_same_unknown_unit_counterexample:
  "unitTypes ''furlong'' = [] \<and> convertUnit ''furlong'' ''furlong'' (Fin 5) = Inr (Fin 5)"
  by (simp add: convertUnit_def normalizeUnit_def toUpperCase_def upperChar_def unitTypes_def
      table_defs)

text \<open>
  C4 as amended: for every finite value and every two non-empty unit strings,
  \<^item> when the normalised forms of the two units are equal, \<open>convertUnit\<close> returns the value
    unchanged, whether the unit is in a table or not;
  \<^item> when they differ, and either unit is in no table and is no temperature unit, or no
    quantity type holds both units, \<open>convertUnit\<close> throws its one "Unsupported conversion"
    error.
  A unit is in a table by the \<open>in\<close> test of the code. Nothing is said of two different
  units that one table holds.
\<close>

theorem convertUnit_same_or_unsupported:
  assumes "normalizeUnit originalUnit = Inr fromUnit"
    and "normalizeUnit newUnit = Inr toUnit"
  shows "(fromUnit = toUnit \<longrightarrow> convertUnit originalUnit newUnit (Fin v) = Inr (Fin v))
    \<and> (fromUnit \<noteq> toUnit
         \<and> (unitTypes fromUnit = [] \<or> unitTypes toUnit = []
            \<or> set (unitTypes fromUnit) \<inter> set (unitTypes toUnit) = {})
       \<longrightarrow> convertUnit originalUnit newUnit (Fin v)
             = Inl (UnsupportedConversion originalUnit newUnit))"
proof (intro conjI impI)
  assume "fromUnit = toUnit"
  then show "convertUnit originalUnit newUnit (Fin v) = Inr (Fin v)"
    using assms by (simp add: convertUnit_def)
next
  assume different: "fromUnit \<noteq> toUnit
    \<and> (unitTypes fromUnit = [] \<or> unitTypes toUnit = []
       \<or> set (unitTypes fromUnit) \<inter> set (unitTypes toUnit) = {})"
  then have disjoint: "set (unitTypes fromUnit) \<inter> set (unitTypes toUnit) = {}"
    by auto
  have not_temp: "\<not> (fromUnit \<in> set [''C'', ''F'', ''K''] \<and> toUnit \<in> set [''C'', ''F'', ''K''])"
    using disjoint unitTypes_temperature [of fromUnit] unitTypes_temperature [of toUnit]
    by blast
  have "tryTables unitTypeRegistry originalUnit newUnit fromUnit toUnit (Fin v)
          = Inl (UnsupportedConversion originalUnit newUnit)"
  proof (rule tryTables_no_common_table)
    fix typeName factorTable
    assume "(typeName, factorTable) \<in> set unitTypeRegistry"
    then show "\<not> hasKey factorTable fromUnit \<or> \<not> hasKey factorTable toUnit"
      using disjoint unitTypes_table [of typeName factorTable fromUnit]
        unitTypes_table [of typeName factorTable toUnit]
      by blast
  qed
  then show "convertUnit originalUnit newUnit (Fin v)
               = Inl (UnsupportedConversion originalUnit newUnit)"
    using assms different not_temp unfolding convertUnit_def by auto
qed

theorem convertUnit_same_or_unsupported_witness:
  "convertUnit ''c'' ''C'' (Fin 1) = Inr (Fin 1)
   \<and> convertUnit ''furlong'' ''furlong'' (Fin 1) = Inr (Fin 1)
   \<and> convertUnit ''m'' ''kg/m^3'' (Fin 1) = Inl (UnsupportedConversion ''m'' ''kg/m^3'')
   \<and> convertUnit ''furlong'' ''m'' (Fin 1) = Inl (UnsupportedConversion ''furlong'' ''m'')
   \<and> convertUnit ''c'' ''Pa'' (Fin 1) = Inl (UnsupportedConversion ''c'' ''Pa'')
   \<and> convertUnit ''furlong'' ''toString'' (Fin 1)
       = Inl (UnsupportedConversion ''furlong'' ''toString'')"
  using convertUnit_same_or_unsupported [of "''c''" "''C''" "''C''" "''C''" 1]
    convertUnit_same_or_unsupported [of "''furlong''" "''furlong''" "''furlong''" "''furlong''" 1]
    convertUnit_same_or_unsupported [of "''m''" "''m''" "''kg/m^3''" "''kg/m^3''" 1]
    convertUnit_same_or_unsupported [of "''furlong''" "''furlong''" "''m''" "''m''" 1]
    convertUnit_same_or_unsupported [of "''c''" "''C''" "''Pa''" "''Pa''" 1]
    convertUnit_same_or_unsupported [of "''furlong''" "''furlong''" "''toString''" "''toString''" 1]
  by (simp add: normalizeUnit_def toUpperCase_def upperChar_def unitTypes_def table_defs)

text \<open>
  Two conversions inside one table, of which the amended claim says nothing. A name that
  the tables inherit is \<open>in\<close> the first table that holds the other unit, and the factor
  read for it is no number: from \<open>m\<close> to \<open>constructor\<close> the result is \<open>NaN\<close>, not an error. The
  flow table holds the mass-flow units \<open>kg/s\<close> and \<open>lb/s\<close> next to the volume-flow units, so
  a mass flow converts to a volume flow.
\<close>

lemma convertUnit_inherited_name:
  "convertUnit ''m'' ''constructor'' (Fin 5) = Inr NaN"
  by (simp add: convertUnit_def normalizeUnit_def toUpperCase_def upperChar_def table_defs
      linearConversion_def)

lemma convertUnit_mass_flow_to_volume_flow:
  "convertUnit ''kg/s'' ''L/s'' (Fin 1) = Inr (Fin 1000)"
  by (simp add: convertUnit_def normalizeUnit_def toUpperCase_def upperChar_def table_defs
      linearConversion_def)

text \<open>
  The identity law: for every non-empty unit string and every finite value, converting
  from a unit to the same unit returns the value.
\<close>

theorem convertUnit_identity:
  "unit \<noteq> [] \<Longrightarrow> convertUnit unit unit (Fin v) = Inr (Fin v)"
  by (simp add: convertUnit_def normalizeUnit_def Let_def)

theorem convertUnit_identity_witness:
  "convertUnit ''psi'' ''psi'' (Fin 3) = Inr (Fin 3)"
  using convertUnit_identity [of "''psi''" 3] by simp

text \<open>0 degrees Celsius are 32 degrees Fahrenheit, and 273.15 K are 0 degrees Celsius.\<close>

theorem convertUnit_temperature_examples:
  "convertUnit ''C'' ''F'' (Fin 0) = Inr (Fin 32)
   \<and> convertUnit ''K'' ''C'' (Fin 273.15) = Inr (Fin 0)"
  by (simp add: convertUnit_def normalizeUnit_def toUpperCase_def upperChar_def
      temperatureToKelvin_def temperatureFromKelvin_def)

text \<open>
  The round trip between Fahrenheit and Celsius: converting a finite \<open>x\<close> from \<open>F\<close> to \<open>C\<close>
  and back returns \<open>x\<close>.
\<close>

theorem convertUnit_fahrenheit_celsius_round_trip:
  "convertUnit ''F'' ''C'' (Fin x) = Inr (Fin ((x - 32) * 5 / 9))
   \<and> convertUnit ''C'' ''F'' (Fin ((x - 32) * 5 / 9)) = Inr (Fin x)"
  by (simp add: convertUnit_def normalizeUnit_def toUpperCase_def upperChar_def
      temperatureToKelvin_def temperatureFromKelvin_def field_simps)

end
